theory Spec2Isabelle
  imports Main "HOL-Library.Word" "HOL-Library.Sublist"
begin

section \<open>JavaScript strings\<close>

text \<open>
  A JavaScript string is a sequence of 16-bit code units. String literals of
  \<^verbatim>\<open>script.js\<close> are ASCII and are written \<open>js ''...''\<close>.
\<close>

type_synonym js_string = "16 word list"

definition js :: "string \<Rightarrow> js_string" where
  "js s = map of_char s"

text \<open>
  \<^verbatim>\<open>String.prototype.trim\<close> strips the code units of WhiteSpace and LineTerminator
  (ECMAScript 12.2 and 12.3) from both ends. All of them lie in the basic plane.
\<close>

definition WhiteSpace :: "16 word \<Rightarrow> bool" where
  "WhiteSpace c \<longleftrightarrow>
     c \<in> {0x9, 0xA, 0xB, 0xC, 0xD, 0x20, 0xA0, 0x1680, 0x2028, 0x2029, 0x202F, 0x205F,
          0x3000, 0xFEFF}
     \<or> (0x2000 \<le> c \<and> c \<le> 0x200A)"

definition trim :: "js_string \<Rightarrow> js_string" where
  "trim s = rev (dropWhile WhiteSpace (rev (dropWhile WhiteSpace s)))"

text \<open>Decimal rendering of a non-negative integer, as a template literal gives it.\<close>

fun digits :: "nat \<Rightarrow> js_string" where
  "digits n =
     (if n < 10 then [of_nat (48 + n)]
      else digits (n div 10) @ [of_nat (48 + n mod 10)])"

declare digits.simps [simp del]

text \<open>
  \<^verbatim>\<open>encodeURIComponent\<close> throws a URIError exactly when its argument holds a
  surrogate code unit that is not part of a pair.
\<close>

definition high_surrogate :: "16 word \<Rightarrow> bool" where
  "high_surrogate c \<longleftrightarrow> 0xD800 \<le> c \<and> c \<le> 0xDBFF"

definition low_surrogate :: "16 word \<Rightarrow> bool" where
  "low_surrogate c \<longleftrightarrow> 0xDC00 \<le> c \<and> c \<le> 0xDFFF"

fun well_formed :: "js_string \<Rightarrow> bool" where
  "well_formed [] = True"
| "well_formed [c] = (\<not> high_surrogate c \<and> \<not> low_surrogate c)"
| "well_formed (c # d # cs) =
     (if high_surrogate c then low_surrogate d \<and> well_formed cs
      else \<not> low_surrogate c \<and> well_formed (d # cs))"

section \<open>Errors\<close>

text \<open>
  The exceptions that can arise while \<^verbatim>\<open>script.js\<close> runs. \<open>Error m\<close> is
  \<^verbatim>\<open>new Error(m)\<close>, whose \<^verbatim>\<open>name\<close> is \<^verbatim>\<open>'Error'\<close>; of the others the
  constructor is the \<^verbatim>\<open>name\<close>. \<open>AbortError\<close> is what an aborted fetch rejects
  with, \<open>TypeError\<close> what a failed fetch rejects with and what reading a property
  of \<^verbatim>\<open>null\<close> throws, \<open>SecurityError\<close> and \<open>QuotaExceededError\<close> come from
  \<^verbatim>\<open>localStorage\<close>, \<open>URIError\<close> from \<^verbatim>\<open>encodeURIComponent\<close>.
\<close>

datatype js_error =
    AbortError
  | TypeError
  | SecurityError
  | QuotaExceededError
  | URIError
  | Error js_string

section \<open>The page\<close>

text \<open>
  \<^verbatim>\<open>addMessage\<close> gives a bubble one of two classes; the typing indicator is an
  \<^verbatim>\<open>ai-message\<close> bubble whose content has class \<^verbatim>\<open>typing\<close> and text
  \<^verbatim>\<open>Typing...\<close>.
\<close>

datatype css_class = user_message | ai_message

datatype node = MessageDiv css_class js_string | TypingDiv

text \<open>
  The closure of one call of \<^verbatim>\<open>sendMessage\<close> that reaches \<^verbatim>\<open>fetch\<close>: the
  values the promise handlers still use. The URL is determined by \<open>req_apiKey\<close>, the
  POST body by \<open>req_message\<close>. The \<^verbatim>\<open>AbortController\<close> of the call is the one
  that the timer \<open>req_timeoutId\<close> aborts, so the timer's id stands for it too.
\<close>

record request =
  req_apiKey :: js_string
  req_message :: js_string
  req_typingIndicator :: nat
  req_timeoutId :: nat

datatype timer_action =
    AbortFetch \<comment> \<open>\<^verbatim>\<open>() => controller.abort()\<close>\<close>
  | SetButtonText js_string \<comment> \<open>\<^verbatim>\<open>() => (saveTokenBtn.textContent = ...)\<close>\<close>

text \<open>What the run does to the world outside its variables, in order.\<close>

datatype effect =
    AppendChild nat node
  | RemoveChild nat
  | Fetch request
  | ConsoleError js_error
  | ConsoleWarn js_error
  | UnhandledRejection js_error

text \<open>
  \<^verbatim>\<open>localStorage\<close> may refuse every access (\<open>Denied\<close>: reading the property
  \<^verbatim>\<open>localStorage\<close> throws a SecurityError) or only writes (\<open>Full\<close>:
  \<^verbatim>\<open>setItem\<close> throws a QuotaExceededError); the source guards for it at page
  load and in the Save handler.
\<close>

datatype storage_status = Available | Full | Denied

text \<open>
  The state of the page. \<open>chatContainer\<close> lists the children of the chat container,
  each with the identity of its element. \<open>stored_key\<close> is the
  \<^verbatim>\<open>'gemini_api_key'\<close> entry of \<^verbatim>\<open>localStorage\<close> (\<open>None\<close>: no entry) and
  \<open>GEMINI_API_KEY\<close> the global \<^verbatim>\<open>window.GEMINI_API_KEY\<close> (\<open>None\<close>:
  \<^verbatim>\<open>undefined\<close>). \<open>tokenInput_masked\<close> says that the attribute
  \<^verbatim>\<open>data-masked\<close> is \<^verbatim>\<open>'true'\<close>. A pending timer is its id, its delay in
  milliseconds and its callback. \<open>fetching\<close> holds the calls whose \<^verbatim>\<open>fetch\<close>
  promise is pending, \<open>reading\<close> those whose response has arrived with the given
  status and whose \<^verbatim>\<open>response.json()\<close> is pending. Scroll position and tooltips
  are not modelled.
\<close>

record state =
  chatContainer :: "(nat \<times> node) list"
  next_node :: nat
  userInput_value :: js_string
  userInput_disabled :: bool
  userInput_focused :: bool
  sendButton_disabled :: bool
  tokenInput_value :: js_string
  tokenInput_masked :: bool
  saveTokenBtn_text :: js_string
  GEMINI_API_KEY :: "js_string option"
  storage :: storage_status
  stored_key :: "js_string option"
  timers :: "(nat \<times> nat \<times> timer_action) list"
  next_timer :: nat
  fetching :: "request list"
  reading :: "(request \<times> nat) list"
  effects :: "effect list"

subsection \<open>Storage, timers, DOM\<close>

definition getItem :: "state \<Rightarrow> js_error + js_string option" where
  "getItem s = (if storage s = Denied then Inl SecurityError else Inr (stored_key s))"

definition setItem :: "js_string \<Rightarrow> state \<Rightarrow> js_error + state" where
  "setItem v s =
     (if storage s = Denied then Inl SecurityError
      else if storage s = Full then Inl QuotaExceededError
      else Inr (s\<lparr>stored_key := Some v\<rparr>))"

definition removeItem :: "state \<Rightarrow> js_error + state" where
  "removeItem s =
     (if storage s = Denied then Inl SecurityError else Inr (s\<lparr>stored_key := None\<rparr>))"

definition setTimeout :: "timer_action \<Rightarrow> nat \<Rightarrow> state \<Rightarrow> nat \<times> state" where
  "setTimeout f ms s =
     (next_timer s,
      s\<lparr>timers := timers s @ [(next_timer s, ms, f)], next_timer := Suc (next_timer s)\<rparr>)"

definition clearTimeout :: "nat \<Rightarrow> state \<Rightarrow> state" where
  "clearTimeout t s = s\<lparr>timers := filter (\<lambda>e. fst e \<noteq> t) (timers s)\<rparr>"

definition appendChild :: "node \<Rightarrow> state \<Rightarrow> nat \<times> state" where
  "appendChild n s =
     (next_node s,
      s\<lparr>chatContainer := chatContainer s @ [(next_node s, n)],
        next_node := Suc (next_node s),
        effects := effects s @ [AppendChild (next_node s) n]\<rparr>)"

definition attached :: "nat \<Rightarrow> state \<Rightarrow> bool" where
  "attached i s \<longleftrightarrow> i \<in> fst ` set (chatContainer s)"

definition removeChild :: "nat \<Rightarrow> state \<Rightarrow> state" where
  "removeChild i s =
     s\<lparr>chatContainer := filter (\<lambda>e. fst e \<noteq> i) (chatContainer s),
       effects := effects s @ [RemoveChild i]\<rparr>"

definition addMessage :: "js_string \<Rightarrow> js_string \<Rightarrow> state \<Rightarrow> state" where
  "addMessage text sender s =
     snd (appendChild
            (MessageDiv (if sender = js ''user'' then user_message else ai_message) text) s)"

definition addTypingIndicator :: "state \<Rightarrow> nat \<times> state" where
  "addTypingIndicator s = appendChild TypingDiv s"

text \<open>
  \<^verbatim>\<open>if (typingIndicator && typingIndicator.parentNode) { ...removeChild... }\<close>
\<close>

definition removeTypingIndicator :: "nat \<Rightarrow> state \<Rightarrow> state" where
  "removeTypingIndicator i s = (if attached i s then removeChild i s else s)"

subsection \<open>The credential\<close>

definition truthy_string :: "js_string option \<Rightarrow> bool" where
  "truthy_string v \<longleftrightarrow> (case v of None \<Rightarrow> False | Some k \<Rightarrow> k \<noteq> [])"

text \<open>
  \<^verbatim>\<open>window.GEMINI_API_KEY || localStorage.getItem('gemini_api_key')\<close>: the right
  operand is evaluated only when the left one is falsy.
\<close>

definition readKey :: "state \<Rightarrow> js_error + js_string option" where
  "readKey s = (if truthy_string (GEMINI_API_KEY s) then Inr (GEMINI_API_KEY s) else getItem s)"

definition encodeURIComponent_throws :: "js_string \<Rightarrow> bool" where
  "encodeURIComponent_throws k \<longleftrightarrow> \<not> well_formed k"

definition unlock :: "state \<Rightarrow> state" where
  "unlock s = s\<lparr>userInput_disabled := False, sendButton_disabled := False,
               userInput_focused := True\<rparr>"

definition key_required :: js_string where
  "key_required = js ''Gemini API key is required. Please enter it and click \"Save Key\".''"

text \<open>Lines 91 to 98, the branch \<^verbatim>\<open>if (!apiKey)\<close> up to its \<^verbatim>\<open>return\<close>.\<close>

definition keyMissing :: "nat \<Rightarrow> state \<Rightarrow> state" where
  "keyMissing typingIndicator s =
     unlock (addMessage key_required (js ''ai'') (removeTypingIndicator typingIndicator s))"

section \<open>sendMessage\<close>

text \<open>
  The synchronous part of \<^verbatim>\<open>sendMessage\<close>, up to and including the call of
  \<^verbatim>\<open>fetch\<close>. \<open>Inl (e, s)\<close>: the exception \<open>e\<close> left the function, with the
  page in state \<open>s\<close>. Disabling the focused input takes the focus from it.
\<close>

definition sendMessage :: "state \<Rightarrow> js_error \<times> state + state" where
  "sendMessage s =
     (if sendButton_disabled s then Inr s
      else
        let message = trim (userInput_value s) in
        if message = [] then Inr s
        else
          let s1 = addMessage message (js ''user'') s;
              s2 = s1\<lparr>userInput_value := [], userInput_disabled := True,
                      userInput_focused := False, sendButton_disabled := True\<rparr>;
              (typingIndicator, s3) = addTypingIndicator s2;
              (timeoutId, s4) = setTimeout AbortFetch 15000 s3
          in case readKey s4 of
               Inl e \<Rightarrow> Inl (e, s4)
             | Inr None \<Rightarrow> Inr (keyMissing typingIndicator s4)
             | Inr (Some apiKey) \<Rightarrow>
                 if apiKey = [] then Inr (keyMissing typingIndicator s4)
                 else if encodeURIComponent_throws apiKey then Inl (URIError, s4)
                 else
                   let r = \<lparr>req_apiKey = apiKey, req_message = message,
                            req_typingIndicator = typingIndicator,
                            req_timeoutId = timeoutId\<rparr>
                   in Inr (s4\<lparr>fetching := fetching s4 @ [r],
                              effects := effects s4 @ [Fetch r]\<rparr>))"

section \<open>The key widget\<close>

text \<open>
  The script's first statements (lines 11 to 24), run once on the page as the HTML
  gives it. The key widget is taken to be present: the Save handler is installed
  only then.
\<close>

definition loadSavedKey :: "state \<Rightarrow> state" where
  "loadSavedKey s =
     (case getItem s of
        Inl e \<Rightarrow> s\<lparr>effects := effects s @ [ConsoleWarn e]\<rparr>
      | Inr saved \<Rightarrow>
          if truthy_string saved then
            s\<lparr>GEMINI_API_KEY := saved, tokenInput_value := js ''********'',
              tokenInput_masked := True, saveTokenBtn_text := js ''Key Saved''\<rparr>
          else s)"

definition saveFailed :: "js_error \<Rightarrow> state \<Rightarrow> state" where
  "saveFailed e s =
     snd (setTimeout (SetButtonText (js ''Save Key'')) 1500
            (s\<lparr>effects := effects s @ [ConsoleError e],
               saveTokenBtn_text := js ''Save Failed''\<rparr>))"

text \<open>The click handler of the Save button (lines 28 to 58).\<close>

definition saveTokenBtn_click :: "state \<Rightarrow> state" where
  "saveTokenBtn_click s =
     (let raw = trim (tokenInput_value s) in
      if raw = [] then
        (case removeItem s of
           Inl e \<Rightarrow> saveFailed e s
         | Inr s1 \<Rightarrow>
             snd (setTimeout (SetButtonText (js ''Save Key'')) 1200
                    (s1\<lparr>GEMINI_API_KEY := None, saveTokenBtn_text := js ''Key Cleared'',
                        tokenInput_value := [], tokenInput_masked := False\<rparr>)))
      else if tokenInput_masked s \<and> raw = js ''********'' then
        snd (setTimeout (SetButtonText (js ''Save Key'')) 1200
               (s\<lparr>saveTokenBtn_text := js ''Key Saved''\<rparr>))
      else
        (case setItem raw s of
           Inl e \<Rightarrow> saveFailed e s
         | Inr s1 \<Rightarrow>
             snd (setTimeout (SetButtonText (js ''Save Key'')) 1200
                    (s1\<lparr>GEMINI_API_KEY := Some raw, tokenInput_value := js ''********'',
                        tokenInput_masked := True, saveTokenBtn_text := js ''Saved''\<rparr>))))"

section \<open>Values of the response\<close>

text \<open>
  What \<^verbatim>\<open>response.json()\<close> resolves to. A number is kept as the text that
  \<^verbatim>\<open>Number.prototype.toString\<close> gives it (\<^verbatim>\<open>0\<close> and \<^verbatim>\<open>-0\<close> both give
  \<^verbatim>\<open>0\<close>), an object as its own properties in enumeration order. The result of a
  property read is a \<open>json option\<close>, \<open>None\<close> being \<^verbatim>\<open>undefined\<close>.
\<close>

datatype json =
    JNull
  | JBool bool
  | JNum js_string
  | JStr js_string
  | JArr "json list"
  | JObj "(js_string \<times> json) list"

fun truthy :: "json \<Rightarrow> bool" where
  "truthy JNull = False"
| "truthy (JBool b) = b"
| "truthy (JNum r) = (r \<noteq> js ''0'')"
| "truthy (JStr s) = (s \<noteq> [])"
| "truthy (JArr xs) = True"
| "truthy (JObj kvs) = True"

definition and_then :: "'e + 'a \<Rightarrow> ('a \<Rightarrow> 'e + 'b) \<Rightarrow> 'e + 'b" where
  "and_then m f = (case m of Inl e \<Rightarrow> Inl e | Inr x \<Rightarrow> f x)"

text \<open>
  The property read \<^verbatim>\<open>v.k\<close>, for the names the script reads (\<^verbatim>\<open>error\<close>,
  \<^verbatim>\<open>message\<close>, \<^verbatim>\<open>candidates\<close>, \<^verbatim>\<open>content\<close>, \<^verbatim>\<open>parts\<close>, \<^verbatim>\<open>text\<close>):
  none of them is inherited, so only an object can have one. Reading a property of
  \<^verbatim>\<open>null\<close> throws.
\<close>

fun get :: "json \<Rightarrow> js_string \<Rightarrow> js_error + json option" where
  "get JNull k = Inl TypeError"
| "get (JObj kvs) k = Inr (map_of kvs k)"
| "get v k = Inr None"

text \<open>
  Conversion to a string, as a template literal and \<^verbatim>\<open>Array.prototype.join\<close> do
  it. \<^verbatim>\<open>join\<close> turns \<^verbatim>\<open>null\<close> elements into the empty string. An object with
  an own property \<^verbatim>\<open>toString\<close> (never callable in parsed JSON) has no primitive
  value: the conversion throws a TypeError.
\<close>

fun ToString :: "json \<Rightarrow> js_error + js_string"
  and join :: "js_string \<Rightarrow> json list \<Rightarrow> js_error + js_string" where
  "ToString JNull = Inr (js ''null'')"
| "ToString (JBool b) = Inr (if b then js ''true'' else js ''false'')"
| "ToString (JNum r) = Inr r"
| "ToString (JStr s) = Inr s"
| "ToString (JArr xs) = join (js '','') xs"
| "ToString (JObj kvs) =
     (if js ''toString'' \<in> fst ` set kvs then Inl TypeError
      else Inr (js ''[object Object]''))"
| "join sep [] = Inr []"
| "join sep [x] = (if x = JNull then Inr [] else ToString x)"
| "join sep (x # y # ys) =
     and_then (if x = JNull then Inr [] else ToString x)
       (\<lambda>a. and_then (join sep (y # ys)) (\<lambda>b. Inr (a @ sep @ b)))"

subsection \<open>JSON.stringify\<close>

definition hex_digit :: "nat \<Rightarrow> 16 word" where
  "hex_digit n = (if n < 10 then of_nat (48 + n) else of_nat (87 + n))"

definition unicode_escape :: "16 word \<Rightarrow> js_string" where
  "unicode_escape c =
     [0x5C, 0x75] @ map (\<lambda>i. hex_digit (unat c div 16 ^ i mod 16)) [3, 2, 1, 0]"

definition escape_unit :: "16 word \<Rightarrow> js_string" where
  "escape_unit c =
     (if c = 0x08 then [0x5C, 0x62]
      else if c = 0x09 then [0x5C, 0x74]
      else if c = 0x0A then [0x5C, 0x6E]
      else if c = 0x0C then [0x5C, 0x66]
      else if c = 0x0D then [0x5C, 0x72]
      else if c = 0x22 then [0x5C, 0x22]
      else if c = 0x5C then [0x5C, 0x5C]
      else if c < 0x20 \<or> high_surrogate c \<or> low_surrogate c then unicode_escape c
      else [c])"

fun escape_units :: "js_string \<Rightarrow> js_string" where
  "escape_units [] = []"
| "escape_units [c] = escape_unit c"
| "escape_units (c # d # cs) =
     (if high_surrogate c \<and> low_surrogate d then c # d # escape_units cs
      else escape_unit c @ escape_units (d # cs))"

definition QuoteJSONString :: "js_string \<Rightarrow> js_string" where
  "QuoteJSONString s = [0x22] @ escape_units s @ [0x22]"

fun commas :: "js_string list \<Rightarrow> js_string" where
  "commas [] = []"
| "commas [x] = x"
| "commas (x # y # ys) = x @ js '','' @ commas (y # ys)"

fun JSON_stringify :: "json \<Rightarrow> js_string"
  and stringify_elements :: "json list \<Rightarrow> js_string list"
  and stringify_properties :: "(js_string \<times> json) list \<Rightarrow> js_string list" where
  "JSON_stringify JNull = js ''null''"
| "JSON_stringify (JBool b) = (if b then js ''true'' else js ''false'')"
| "JSON_stringify (JNum r) =
     (if r = js ''Infinity'' \<or> r = js ''-Infinity'' then js ''null'' else r)"
| "JSON_stringify (JStr s) = QuoteJSONString s"
| "JSON_stringify (JArr xs) = js ''['' @ commas (stringify_elements xs) @ js '']''"
| "JSON_stringify (JObj kvs) = js ''{'' @ commas (stringify_properties kvs) @ js ''}''"
| "stringify_elements [] = []"
| "stringify_elements (x # xs) = JSON_stringify x # stringify_elements xs"
| "stringify_properties [] = []"
| "stringify_properties ((k, v) # kvs) =
     (QuoteJSONString k @ js '':'' @ JSON_stringify v) # stringify_properties kvs"

section \<open>The promise chain\<close>

text \<open>
  Lines 130 and 131: \<^verbatim>\<open>apiErr\<close>, a value that is \<^verbatim>\<open>null\<close> or truthy, and
  \<^verbatim>\<open>msg\<close>.
\<close>

definition apiErr :: "json \<Rightarrow> js_error + json" where
  "apiErr data =
     (if \<not> truthy data then Inr JNull
      else and_then (get data (js ''error''))
        (\<lambda>err. case err of
           None \<Rightarrow> Inr JNull
         | Some e \<Rightarrow>
             if \<not> truthy e then Inr JNull
             else and_then (get e (js ''message''))
               (\<lambda>m. case m of
                  None \<Rightarrow> Inr (JStr (JSON_stringify e))
                | Some v \<Rightarrow> if truthy v then Inr v else Inr (JStr (JSON_stringify e)))))"

definition msg :: "json \<Rightarrow> nat \<Rightarrow> js_error + js_string" where
  "msg data status =
     and_then (apiErr data)
       (\<lambda>a. if truthy a then and_then (ToString a) (\<lambda>t. Inr (js ''API error: '' @ t))
            else Inr (js ''HTTP '' @ digits status))"

definition ok :: "nat \<Rightarrow> bool" where
  "ok status \<longleftrightarrow> 200 \<le> status \<and> status \<le> 299"

text \<open>
  The first \<^verbatim>\<open>then\<close> callback, from the moment \<^verbatim>\<open>response.json()\<close> has
  settled: \<open>body = None\<close> when it rejected, \<open>Some data\<close> when it resolved. The
  callback changes nothing on the page.
\<close>

definition onResponse :: "nat \<Rightarrow> json option \<Rightarrow> js_error + json" where
  "onResponse status body =
     (case body of
        None \<Rightarrow> Inl (Error (js ''Invalid JSON from API ('' @ digits status @ js '')''))
      | Some data \<Rightarrow>
          if \<not> ok status then
            (case msg data status of Inl e \<Rightarrow> Inl e | Inr m \<Rightarrow> Inl (Error m))
          else Inr data)"

text \<open>\<^verbatim>\<open>p => p.text || ''\<close>\<close>

definition part_text :: "json \<Rightarrow> js_error + json" where
  "part_text p =
     and_then (get p (js ''text''))
       (\<lambda>t. case t of None \<Rightarrow> Inr (JStr []) | Some v \<Rightarrow> Inr (if truthy v then v else JStr []))"

fun map_parts :: "json list \<Rightarrow> js_error + json list" where
  "map_parts [] = Inr []"
| "map_parts (p # ps) =
     and_then (part_text p) (\<lambda>v. and_then (map_parts ps) (\<lambda>vs. Inr (v # vs)))"

text \<open>Lines 143 to 149: the value of \<^verbatim>\<open>reply\<close>.\<close>

definition reply :: "json \<Rightarrow> js_error + js_string" where
  "reply data =
     (if \<not> truthy data then Inr []
      else and_then (get data (js ''candidates''))
        (\<lambda>cs. case cs of
           Some (JArr (cand # rest)) \<Rightarrow>
             if \<not> truthy cand then Inr []
             else and_then (get cand (js ''content''))
               (\<lambda>c. case c of
                  None \<Rightarrow> Inr []
                | Some content \<Rightarrow>
                    if \<not> truthy content then Inr []
                    else and_then (get content (js ''parts''))
                      (\<lambda>ps. case ps of
                         Some (JArr parts) \<Rightarrow>
                           and_then (map_parts parts)
                             (\<lambda>texts. and_then (join [] texts) (\<lambda>t. Inr (trim t)))
                       | _ \<Rightarrow> Inr []))
         | _ \<Rightarrow> Inr []))"

definition no_reply :: js_string where
  "no_reply = js ''Sorry, I couldn't generate a response. Please try again.''"

text \<open>The second \<^verbatim>\<open>then\<close> callback.\<close>

definition onData :: "request \<Rightarrow> json \<Rightarrow> state \<Rightarrow> js_error \<times> state + state" where
  "onData r data s =
     (let s1 = removeTypingIndicator (req_typingIndicator r) s in
      case reply data of
        Inl e \<Rightarrow> Inl (e, s1)
      | Inr t \<Rightarrow> Inr (addMessage (if t = [] then no_reply else t) (js ''ai'') s1))"

definition timed_out :: js_string where
  "timed_out = js ''The request timed out. Please try again.''"

definition service_error :: js_string where
  "service_error = js ''An error occurred while contacting the Gemini service.''"

definition tip :: js_string where
  "tip = js '' Tip: Save your Gemini API key to proceed.''"

text \<open>The \<^verbatim>\<open>catch\<close> callback.\<close>

definition onError :: "request \<Rightarrow> js_error \<Rightarrow> state \<Rightarrow> js_error \<times> state + state" where
  "onError r error s =
     (let s1 = removeTypingIndicator (req_typingIndicator r) s;
          s2 = s1\<lparr>effects := effects s1 @ [ConsoleError error]\<rparr>;
          timedOut = (error = AbortError)
      in case readKey s2 of
           Inl e \<Rightarrow> Inl (e, s2)
         | Inr k \<Rightarrow>
             let hint = (if truthy_string k then [] else tip)
             in Inr (addMessage (if timedOut then timed_out @ hint else service_error @ hint)
                       (js ''ai'') s2))"

text \<open>The \<^verbatim>\<open>finally\<close> callback.\<close>

definition onFinally :: "request \<Rightarrow> state \<Rightarrow> state" where
  "onFinally r s = unlock (clearTimeout (req_timeoutId r) s)"

text \<open>
  The chain from the point where the promise of the first \<^verbatim>\<open>then\<close> settles, with
  \<open>Inl e\<close> (the fetch was rejected, or the first callback threw) or \<open>Inr data\<close>. A
  rejection that the \<^verbatim>\<open>catch\<close> callback itself raises goes through
  \<^verbatim>\<open>finally\<close> and stays unhandled.
\<close>

definition settle :: "request \<Rightarrow> js_error + json \<Rightarrow> state \<Rightarrow> state" where
  "settle r first s =
     (let thens = (case first of Inl e \<Rightarrow> Inl (e, s) | Inr data \<Rightarrow> onData r data s);
          caught = (case thens of Inl (e, s1) \<Rightarrow> onError r e s1 | Inr s1 \<Rightarrow> Inr s1)
      in case caught of
           Inl (e, s2) \<Rightarrow>
             (let s3 = onFinally r s2 in s3\<lparr>effects := effects s3 @ [UnhandledRejection e]\<rparr>)
         | Inr s2 \<Rightarrow> onFinally r s2)"

section \<open>Events\<close>

text \<open>
  What can happen to a call in flight. Each event is one task of the event loop
  with the promise reactions it triggers; an event for a call that is not in the
  stage the event belongs to changes nothing.
\<close>

text \<open>The fetch promise is rejected for a network failure.\<close>

definition fetchFails :: "request \<Rightarrow> state \<Rightarrow> state" where
  "fetchFails r s =
     (if r \<in> set (fetching s)
      then settle r (Inl TypeError) (s\<lparr>fetching := removeAll r (fetching s)\<rparr>)
      else s)"

text \<open>The fetch promise resolves with a response; \<^verbatim>\<open>response.json()\<close> starts.\<close>

definition responseArrives :: "request \<Rightarrow> nat \<Rightarrow> state \<Rightarrow> state" where
  "responseArrives r status s =
     (if r \<in> set (fetching s)
      then s\<lparr>fetching := removeAll r (fetching s), reading := reading s @ [(r, status)]\<rparr>
      else s)"

text \<open>
  \<^verbatim>\<open>response.json()\<close> settles: \<open>Some data\<close> when the body was read and parsed, \<open>None\<close>
  when reading or parsing failed.
\<close>

definition bodyArrives :: "request \<Rightarrow> json option \<Rightarrow> state \<Rightarrow> state" where
  "bodyArrives r body s =
     (case find (\<lambda>e. fst e = r) (reading s) of
        None \<Rightarrow> s
      | Some (r', status) \<Rightarrow>
          settle r (onResponse status body)
            (s\<lparr>reading := filter (\<lambda>e. fst e \<noteq> r) (reading s)\<rparr>))"

text \<open>
  \<^verbatim>\<open>controller.abort()\<close> for the controller of timer \<open>t\<close>: a pending fetch with its
  signal is rejected with an AbortError; a pending \<^verbatim>\<open>response.json()\<close> is rejected
  too, which the \<^verbatim>\<open>try\<close> of the first callback catches; otherwise nothing happens.
\<close>

definition abort :: "nat \<Rightarrow> state \<Rightarrow> state" where
  "abort t s =
     (case find (\<lambda>r. req_timeoutId r = t) (fetching s) of
        Some r \<Rightarrow> settle r (Inl AbortError) (s\<lparr>fetching := removeAll r (fetching s)\<rparr>)
      | None \<Rightarrow>
          (case find (\<lambda>e. req_timeoutId (fst e) = t) (reading s) of
             Some (r, status) \<Rightarrow>
               settle r (onResponse status None)
                 (s\<lparr>reading := filter (\<lambda>e. fst e \<noteq> r) (reading s)\<rparr>)
           | None \<Rightarrow> s))"

text \<open>The timer \<open>t\<close> expires, if it is still pending.\<close>

definition timerFires :: "nat \<Rightarrow> state \<Rightarrow> state" where
  "timerFires t s =
     (case find (\<lambda>e. fst e = t) (timers s) of
        None \<Rightarrow> s
      | Some (t', ms, f) \<Rightarrow>
          (let s1 = s\<lparr>timers := filter (\<lambda>e. fst e \<noteq> t) (timers s)\<rparr>
           in case f of
                AbortFetch \<Rightarrow> abort t s1
              | SetButtonText label \<Rightarrow> s1\<lparr>saveTokenBtn_text := label\<rparr>))"

text \<open>The user types into the message field, which a disabled field does not allow.\<close>

definition userTypes :: "js_string \<Rightarrow> state \<Rightarrow> state" where
  "userTypes text s =
     (if userInput_disabled s then s
      else s\<lparr>userInput_value := text, userInput_focused := True\<rparr>)"

text \<open>The user types into the key field.\<close>

definition userTypesKey :: "js_string \<Rightarrow> state \<Rightarrow> state" where
  "userTypesKey text s = s\<lparr>tokenInput_value := text, userInput_focused := False\<rparr>"

section \<open>Observations\<close>

text \<open>The page as a call of \<^verbatim>\<open>sendMessage\<close> leaves it, whether it returned or threw.\<close>

definition after :: "js_error \<times> state + state \<Rightarrow> state" where
  "after x = (case x of Inl (e, s) \<Rightarrow> s | Inr s \<Rightarrow> s)"

text \<open>The network calls issued so far.\<close>

fun fetched :: "effect \<Rightarrow> request list" where
  "fetched (Fetch r) = [r]"
| "fetched e = []"

definition calls :: "state \<Rightarrow> request list" where
  "calls s = concat (map fetched (effects s))"

text \<open>The messages rendered so far, with their class.\<close>

fun shown :: "effect \<Rightarrow> (css_class \<times> js_string) list" where
  "shown (AppendChild i (MessageDiv c t)) = [(c, t)]"
| "shown e = []"

definition rendered :: "state \<Rightarrow> (css_class \<times> js_string) list" where
  "rendered s = concat (map shown (effects s))"

text \<open>How often the element \<open>i\<close> has been removed from the chat so far.\<close>

definition removals :: "nat \<Rightarrow> state \<Rightarrow> nat" where
  "removals i s = length (filter (\<lambda>e. e = RemoveChild i) (effects s))"

text \<open>
  The hint of the \<^verbatim>\<open>catch\<close> callback, by the state of the credential: empty when
  the global or the stored entry holds a non-empty key.
\<close>

definition hint :: "state \<Rightarrow> js_string" where
  "hint s =
     (if truthy_string (GEMINI_API_KEY s) \<or> truthy_string (stored_key s) then [] else tip)"

section \<open>Example pages\<close>

text \<open>
  A page with an empty chat, nothing typed and nothing pending, before the script
  runs; \<open>page st k\<close> has storage in status \<open>st\<close> with entry \<open>k\<close>.
\<close>

definition page :: "storage_status \<Rightarrow> js_string option \<Rightarrow> state" where
  "page st k =
     \<lparr>chatContainer = [], next_node = 0, userInput_value = [], userInput_disabled = False,
      userInput_focused = False, sendButton_disabled = False, tokenInput_value = [],
      tokenInput_masked = False, saveTokenBtn_text = js ''Save Key'',
      GEMINI_API_KEY = None, storage = st, stored_key = k, timers = [], next_timer = 0,
      fetching = [], reading = [], effects = []\<rparr>"

text \<open>The script has run on \<open>page st k\<close> and the user has typed \<^verbatim>\<open>Hello\<close>.\<close>

definition hello :: "storage_status \<Rightarrow> js_string option \<Rightarrow> state" where
  "hello st k = userTypes (js ''Hello'') (loadSavedKey (page st k))"

text \<open>The call that \<^verbatim>\<open>sendMessage\<close> issues on \<open>hello st k\<close> when it finds the key \<open>k\<close>.\<close>

definition hello_call :: "js_string \<Rightarrow> request" where
  "hello_call k =
     \<lparr>req_apiKey = k, req_message = js ''Hello'', req_typingIndicator = 1,
      req_timeoutId = 0\<rparr>"

text \<open>The page after \<^verbatim>\<open>Hello\<close> was sent with the key \<open>k\<close> saved: the call is in flight.\<close>

definition sent :: "js_string \<Rightarrow> state" where
  "sent k = after (sendMessage (hello Available (Some k)))"

text \<open>Response bodies: \<^verbatim>\<open>{"error":{"message":"quota exceeded"}}\<close>,
  \<^verbatim>\<open>{"candidates":[{"content":{"parts":[null]}}]}\<close>, \<^verbatim>\<open>{"candidates":[]}\<close> and
  \<^verbatim>\<open>{"candidates":[{"content":{"parts":[{"text":"Hi there"}]}}]}\<close>.\<close>

definition quota_body :: json where
  "quota_body = JObj [(js ''error'', JObj [(js ''message'', JStr (js ''quota exceeded''))])]"

definition null_part_body :: json where
  "null_part_body =
     JObj [(js ''candidates'', JArr [JObj [(js ''content'', JObj [(js ''parts'', JArr [JNull])])]])]"

definition no_candidates_body :: json where
  "no_candidates_body = JObj [(js ''candidates'', JArr [])]"

definition hi_there_body :: json where
  "hi_there_body =
     JObj [(js ''candidates'',
       JArr [JObj [(js ''content'',
         JObj [(js ''parts'', JArr [JObj [(js ''text'', JStr (js ''Hi there''))]])])]])]"

section \<open>Runs of the page\<close>

text \<open>
  The states the page can be in: the script has run on a page as loaded, and then
  the user types and clicks, timers expire, responses arrive or fail, and another
  tab of the same origin may change the stored entry.
\<close>

inductive reachable :: "state \<Rightarrow> bool" where
  loaded: "reachable (loadSavedKey (page st k))"
| typed: "reachable s \<Longrightarrow> reachable (userTypes v s)"
| typed_key: "reachable s \<Longrightarrow> reachable (userTypesKey v s)"
| saved: "reachable s \<Longrightarrow> reachable (saveTokenBtn_click s)"
| submitted: "reachable s \<Longrightarrow> reachable (after (sendMessage s))"
| timer: "reachable s \<Longrightarrow> reachable (timerFires t s)"
| failed: "reachable s \<Longrightarrow> reachable (fetchFails r s)"
| response: "reachable s \<Longrightarrow> reachable (responseArrives r status s)"
| body: "reachable s \<Longrightarrow> reachable (bodyArrives r b s)"
| other_tab: "reachable s \<Longrightarrow> storage s \<noteq> Denied \<Longrightarrow> reachable (s\<lparr>stored_key := k\<rparr>)"

text \<open>A call is in flight, and the key lookup of line 163 would not throw.\<close>

definition in_flight :: "state \<Rightarrow> bool" where
  "in_flight s \<longleftrightarrow> fetching s \<noteq> [] \<or> reading s \<noteq> []"

definition key_readable :: "state \<Rightarrow> bool" where
  "key_readable s \<longleftrightarrow> truthy_string (GEMINI_API_KEY s) \<or> storage s \<noteq> Denied"

section \<open>Evaluating the model\<close>

lemmas page_defs = hello_def hello_call_def page_def loadSavedKey_def userTypes_def userTypesKey_def

lemmas dom_defs = addMessage_def addTypingIndicator_def appendChild_def removeTypingIndicator_def
  attached_def removeChild_def unlock_def keyMissing_def setTimeout_def clearTimeout_def

lemmas key_defs = getItem_def setItem_def removeItem_def readKey_def truthy_string_def
  encodeURIComponent_throws_def

lemmas string_defs = trim_def WhiteSpace_def js_def high_surrogate_def low_surrogate_def

lemmas observer_defs = after_def calls_def rendered_def removals_def hint_def

lemmas chain_defs = settle_def onData_def onError_def onFinally_def onResponse_def msg_def
  apiErr_def reply_def part_text_def and_then_def ok_def

lemmas event_defs = timerFires_def abort_def fetchFails_def responseArrives_def bodyArrives_def

lemma sender_ai: "js ''ai'' \<noteq> js ''user''"
  by (simp add: js_def)

lemma trim_mask: "trim (js ''********'') = js ''********''"
  by (simp add: string_defs)

lemma mask_not_empty: "js ''********'' \<noteq> []"
  by (simp add: js_def)

section \<open>Submissions that are ignored\<close>

text \<open>
  C9. While the send button is disabled, or when the text of the input field
  trims to the empty string, \<^verbatim>\<open>sendMessage\<close> returns at once: the page, with
  everything rendered and every call issued so far, is as it was.
\<close>

theorem sendMessage_ignored:
  "sendButton_disabled s \<or> trim (userInput_value s) = [] \<Longrightarrow> sendMessage s = Inr s"
  by (auto simp: sendMessage_def)

theorem sendMessage_ignored_witness:
  "trim (userInput_value (userTypes [0x20, 0x9, 0xA0] (page Available None))) = [] \<and>
   sendMessage (userTypes [0x20, 0x9, 0xA0] (page Available None)) =
     Inr (userTypes [0x20, 0x9, 0xA0] (page Available None)) \<and>
   sendButton_disabled (after (sendMessage (hello Available (Some (js ''k1''))))) \<and>
   sendMessage (after (sendMessage (hello Available (Some (js ''k1''))))) =
     Inr (after (sendMessage (hello Available (Some (js ''k1'')))))"
proof -
  have blank: "trim (userInput_value (userTypes [0x20, 0x9, 0xA0] (page Available None))) = []"
    by (simp add: page_defs string_defs)
  have locked: "sendButton_disabled (after (sendMessage (hello Available (Some (js ''k1'')))))"
    by (simp add: sendMessage_def after_def page_defs dom_defs key_defs string_defs Let_def)
  show ?thesis
    using blank locked
      sendMessage_ignored [of "userTypes [0x20, 0x9, 0xA0] (page Available None)"]
      sendMessage_ignored [of "after (sendMessage (hello Available (Some (js ''k1''))))"]
    by simp
qed

section \<open>The Save button\<close>

text \<open>
  C10. When the key field is marked as masked and still shows the eight asterisks,
  a click on Save leaves the stored entry and the global key as they were.
\<close>

theorem save_masked_unchanged:
  "tokenInput_masked s \<Longrightarrow> tokenInput_value s = js ''********'' \<Longrightarrow>
   stored_key (saveTokenBtn_click s) = stored_key s \<and>
   GEMINI_API_KEY (saveTokenBtn_click s) = GEMINI_API_KEY s"
  by (simp add: saveTokenBtn_click_def trim_mask mask_not_empty setTimeout_def)

theorem save_masked_unchanged_witness:
  "tokenInput_masked (loadSavedKey (page Available (Some (js ''k1'')))) \<and>
   tokenInput_value (loadSavedKey (page Available (Some (js ''k1'')))) = js ''********'' \<and>
   stored_key (saveTokenBtn_click (loadSavedKey (page Available (Some (js ''k1''))))) =
     Some (js ''k1'') \<and>
   GEMINI_API_KEY (saveTokenBtn_click (loadSavedKey (page Available (Some (js ''k1''))))) =
     Some (js ''k1'')"
  using save_masked_unchanged [of "loadSavedKey (page Available (Some (js ''k1'')))"]
  by (simp add: page_defs key_defs js_def)

section \<open>Submitting without a key\<close>

text \<open>
  The branch without a key, when the storage can be read. The send button is
  enabled, the text typed does not trim to the empty string, the global holds no
  key and the storage can be read and holds none. Then \<^verbatim>\<open>sendMessage\<close> returns
  normally; it shows the user's text, adds the typing indicator, removes it again
  and shows the one message that asks for a key; no call is issued; the indicator
  is no longer in the chat; field and button are enabled and the field has the
  focus.
\<close>

theorem missing_key_turn:
  assumes "\<not> sendButton_disabled s" and "trim (userInput_value s) \<noteq> []"
    and "\<not> truthy_string (GEMINI_API_KEY s)"
    and "storage s \<noteq> Denied" and "\<not> truthy_string (stored_key s)"
  shows "\<exists>s'. sendMessage s = Inr s' \<and>
     effects s' = effects s @
       [AppendChild (next_node s) (MessageDiv user_message (trim (userInput_value s))),
        AppendChild (Suc (next_node s)) TypingDiv,
        RemoveChild (Suc (next_node s)),
        AppendChild (Suc (Suc (next_node s))) (MessageDiv ai_message key_required)] \<and>
     calls s' = calls s \<and> fetching s' = fetching s \<and> reading s' = reading s \<and>
     rendered s' = rendered s @
       [(user_message, trim (userInput_value s)), (ai_message, key_required)] \<and>
     \<not> attached (Suc (next_node s)) s' \<and>
     \<not> userInput_disabled s' \<and> \<not> sendButton_disabled s' \<and> userInput_focused s'"
  using assms
  by (auto simp: sendMessage_def dom_defs key_defs observer_defs Let_def sender_ai
      split: option.splits)

theorem missing_key_turn_witness:
  "\<not> sendButton_disabled (hello Available None) \<and>
   trim (userInput_value (hello Available None)) \<noteq> [] \<and>
   \<not> truthy_string (GEMINI_API_KEY (hello Available None)) \<and>
   storage (hello Available None) \<noteq> Denied \<and>
   \<not> truthy_string (stored_key (hello Available None)) \<and>
   rendered (after (sendMessage (hello Available None))) =
     [(user_message, js ''Hello''), (ai_message, key_required)] \<and>
   calls (after (sendMessage (hello Available None))) = [] \<and>
   \<not> sendButton_disabled (after (sendMessage (hello Available None)))"
proof -
  have h: "\<not> sendButton_disabled (hello Available None)"
    "trim (userInput_value (hello Available None)) \<noteq> []"
    "\<not> truthy_string (GEMINI_API_KEY (hello Available None))"
    "storage (hello Available None) \<noteq> Denied"
    "\<not> truthy_string (stored_key (hello Available None))"
    by (simp_all add: page_defs key_defs string_defs)
  have t: "trim (userInput_value (hello Available None)) = js ''Hello''"
    by (simp add: page_defs key_defs string_defs)
  have e: "effects (hello Available None) = []"
    by (simp add: page_defs key_defs)
  from missing_key_turn [OF h] obtain s' where
    "sendMessage (hello Available None) = Inr s'"
    "rendered s' = rendered (hello Available None) @
       [(user_message, trim (userInput_value (hello Available None))), (ai_message, key_required)]"
    "calls s' = calls (hello Available None)" "\<not> sendButton_disabled s'"
    by blast
  then show ?thesis
    using h by (simp add: t e after_def calls_def rendered_def)
qed

section \<open>Which key is used\<close>

text \<open>
  C3, as the specification states it, fails. The page was loaded with the key
  \<^verbatim>\<open>A\<close> saved, so the global holds \<^verbatim>\<open>A\<close>; the stored entry has since become
  \<^verbatim>\<open>B\<close> (another tab saved it). The call that \<^verbatim>\<open>sendMessage\<close> issues carries
  \<^verbatim>\<open>A\<close>, the value in memory, not the value of the store.
\<close>

theorem store_not_preferred:
  "GEMINI_API_KEY ((hello Available (Some (js ''A'')))\<lparr>stored_key := Some (js ''B'')\<rparr>) =
     Some (js ''A'') \<and>
   stored_key ((hello Available (Some (js ''A'')))\<lparr>stored_key := Some (js ''B'')\<rparr>) =
     Some (js ''B'') \<and>
   map req_apiKey
     (calls (after (sendMessage
        ((hello Available (Some (js ''A'')))\<lparr>stored_key := Some (js ''B'')\<rparr>)))) = [js ''A''] \<and>
   js ''A'' \<noteq> js ''B''"
  by (simp add: sendMessage_def observer_defs page_defs dom_defs key_defs string_defs Let_def)

text \<open>
  C3, amended. A submission that passes the two guards uses the global
  \<^verbatim>\<open>window.GEMINI_API_KEY\<close> whenever it holds a non-empty key, whatever the store
  holds; the stored entry is the key of the call only when the global is undefined
  or empty. (The key is one that \<^verbatim>\<open>encodeURIComponent\<close> accepts.)
\<close>

theorem memory_key_first:
  assumes "\<not> sendButton_disabled s" and "trim (userInput_value s) \<noteq> []"
    and "k \<noteq> []" and "well_formed k"
  shows "(GEMINI_API_KEY s = Some k \<longrightarrow>
            (\<exists>s'. sendMessage s = Inr s' \<and>
               map req_apiKey (calls s') = map req_apiKey (calls s) @ [k])) \<and>
         (\<not> truthy_string (GEMINI_API_KEY s) \<and> storage s \<noteq> Denied \<and> stored_key s = Some k \<longrightarrow>
            (\<exists>s'. sendMessage s = Inr s' \<and>
               map req_apiKey (calls s') = map req_apiKey (calls s) @ [k]))"
  using assms
  by (auto simp: sendMessage_def dom_defs key_defs observer_defs Let_def split: option.splits)

theorem memory_key_first_witness:
  "\<not> sendButton_disabled ((hello Available (Some (js ''A'')))\<lparr>stored_key := Some (js ''B'')\<rparr>) \<and>
   trim (userInput_value ((hello Available (Some (js ''A'')))\<lparr>stored_key := Some (js ''B'')\<rparr>)) \<noteq> [] \<and>
   js ''A'' \<noteq> [] \<and> well_formed (js ''A'') \<and>
   GEMINI_API_KEY ((hello Available (Some (js ''A'')))\<lparr>stored_key := Some (js ''B'')\<rparr>) =
     Some (js ''A'') \<and>
   map req_apiKey
     (calls (after (sendMessage
        ((hello Available (Some (js ''A'')))\<lparr>stored_key := Some (js ''B'')\<rparr>)))) = [js ''A'']"
proof -
  let ?s = "(hello Available (Some (js ''A'')))\<lparr>stored_key := Some (js ''B'')\<rparr>"
  have h: "\<not> sendButton_disabled ?s" "trim (userInput_value ?s) \<noteq> []"
    "js ''A'' \<noteq> []" "well_formed (js ''A'')"
    by (simp_all add: page_defs key_defs string_defs)
  have g: "GEMINI_API_KEY ?s = Some (js ''A'')"
    by (simp add: page_defs key_defs string_defs)
  have c: "calls ?s = []"
    by (simp add: page_defs key_defs calls_def)
  from memory_key_first [OF h] g obtain s' where
    "sendMessage ?s = Inr s'" "map req_apiKey (calls s') = map req_apiKey (calls ?s) @ [js ''A'']"
    by blast
  then show ?thesis
    using h g c by (simp add: after_def)
qed

text \<open>
  Every call that \<^verbatim>\<open>sendMessage\<close> issues carries a non-empty key that
  \<^verbatim>\<open>encodeURIComponent\<close> accepts, the one that the lookup of line 89 gives; with
  any other key it issues none.
\<close>

lemma issued_call_key:
  "calls (after (sendMessage s)) = calls s \<or>
   (\<exists>r. calls (after (sendMessage s)) = calls s @ [r] \<and> req_apiKey r \<noteq> [] \<and>
      well_formed (req_apiKey r) \<and> readKey s = Inr (Some (req_apiKey r)))"
  by (auto simp: sendMessage_def observer_defs dom_defs key_defs Let_def
      split: option.splits if_splits)

section \<open>The timer on the path without a key\<close>

text \<open>
  C2 fails on the code. On the page without a key, \<^verbatim>\<open>sendMessage\<close> starts the
  timer (line 86) before it looks for the key and returns from the branch
  \<^verbatim>\<open>if (!apiKey)\<close> without \<^verbatim>\<open>clearTimeout\<close>: when the turn has ended, with the
  button enabled again, the timer is still pending. When it fires later it aborts a
  controller that no call uses, which only takes the timer off the list.
\<close>

theorem missing_key_timer_left_pending:
  "\<not> sendButton_disabled (after (sendMessage (hello Available None))) \<and>
   timers (after (sendMessage (hello Available None))) = [(0, 15000, AbortFetch)] \<and>
   timerFires 0 (after (sendMessage (hello Available None))) =
     (after (sendMessage (hello Available None)))\<lparr>timers := []\<rparr>"
  by (simp add: sendMessage_def observer_defs event_defs page_defs dom_defs key_defs
      string_defs Let_def)

text \<open>On the paths through the promise chain the timer of the call is cleared.\<close>

lemma settle_clears_timer: "req_timeoutId r \<notin> fst ` set (timers (settle r x s))"
  by (auto simp: chain_defs dom_defs key_defs Let_def split: sum.splits prod.splits)

section \<open>Storage that cannot be read\<close>

text \<open>
  C7 fails on the code. \<^verbatim>\<open>localStorage\<close> refuses access and no key is in memory
  (the state in which the script's first statements log
  \<^verbatim>\<open>Token storage unavailable\<close>). The user types \<^verbatim>\<open>Hello\<close> and sends:
  \<^verbatim>\<open>localStorage.getItem\<close> on line 89 throws out of \<^verbatim>\<open>sendMessage\<close>, after the
  field and the button were disabled. No call is in flight, so the only event left
  is the timer, and it changes neither: the input stays locked.
\<close>

theorem gate_left_locked:
  "isl (sendMessage (hello Denied None)) \<and>
   userInput_disabled (after (sendMessage (hello Denied None))) \<and>
   sendButton_disabled (after (sendMessage (hello Denied None))) \<and>
   fetching (after (sendMessage (hello Denied None))) = [] \<and>
   timers (after (sendMessage (hello Denied None))) = [(0, 15000, AbortFetch)] \<and>
   userInput_disabled (timerFires 0 (after (sendMessage (hello Denied None)))) \<and>
   sendButton_disabled (timerFires 0 (after (sendMessage (hello Denied None))))"
  by (simp add: sendMessage_def observer_defs event_defs page_defs dom_defs key_defs
      string_defs Let_def)

text \<open>
  C6 fails on the code, on the same run: the typing indicator (element 1) is never
  removed; it is still in the chat when \<^verbatim>\<open>sendMessage\<close> has thrown and after
  the timer has fired.
\<close>

theorem placeholder_left_attached:
  "chatContainer (after (sendMessage (hello Denied None))) =
     [(0, MessageDiv user_message (js ''Hello'')), (1, TypingDiv)] \<and>
   removals 1 (after (sendMessage (hello Denied None))) = 0 \<and>
   attached 1 (timerFires 0 (after (sendMessage (hello Denied None)))) \<and>
   removals 1 (timerFires 0 (after (sendMessage (hello Denied None)))) = 0"
  by (simp add: sendMessage_def observer_defs event_defs page_defs dom_defs key_defs
      string_defs Let_def)

text \<open>
  C4 fails on the code, on the same run. No key is configured, neither in memory
  nor in the store, the button is enabled and the text typed is \<^verbatim>\<open>Hello\<close>.
  \<^verbatim>\<open>sendMessage\<close> issues no call, but it throws on line 89 before it reaches the
  branch \<^verbatim>\<open>if (!apiKey)\<close>: the message that asks for a key is never rendered,
  neither by \<^verbatim>\<open>sendMessage\<close> nor when the timer fires; only the user's text is.
\<close>

theorem no_key_no_message:
  "\<not> truthy_string (GEMINI_API_KEY (hello Denied None)) \<and>
   \<not> truthy_string (stored_key (hello Denied None)) \<and>
   \<not> sendButton_disabled (hello Denied None) \<and>
   trim (userInput_value (hello Denied None)) = js ''Hello'' \<and>
   isl (sendMessage (hello Denied None)) \<and>
   calls (after (sendMessage (hello Denied None))) = [] \<and>
   rendered (after (sendMessage (hello Denied None))) = [(user_message, js ''Hello'')] \<and>
   rendered (timerFires 0 (after (sendMessage (hello Denied None)))) =
     [(user_message, js ''Hello'')]"
  by (simp add: sendMessage_def observer_defs event_defs page_defs dom_defs key_defs
      string_defs Let_def)

text \<open>
  Whatever settles a call in flight, the \<^verbatim>\<open>finally\<close> callback enables field and
  button and gives the field the focus; so does the branch without a key.
\<close>

lemma settle_unlocks:
  "\<not> userInput_disabled (settle r x s) \<and> \<not> sendButton_disabled (settle r x s) \<and>
   userInput_focused (settle r x s)"
  by (auto simp: settle_def onFinally_def unlock_def Let_def split: sum.splits prod.splits)

lemma keyMissing_unlocks:
  "\<not> userInput_disabled (keyMissing i s) \<and> \<not> sendButton_disabled (keyMissing i s) \<and>
   userInput_focused (keyMissing i s)"
  by (simp add: keyMissing_def unlock_def)

section \<open>Failures of a call\<close>

lemma rendered_addMessage:
  "rendered (addMessage t sender s) =
   rendered s @ [(if sender = js ''user'' then user_message else ai_message, t)]"
  by (simp add: rendered_def addMessage_def appendChild_def)

lemma rendered_removeTypingIndicator: "rendered (removeTypingIndicator i s) = rendered s"
  by (simp add: rendered_def removeTypingIndicator_def removeChild_def)

lemma rendered_onFinally: "rendered (onFinally r s) = rendered s"
  by (simp add: rendered_def onFinally_def unlock_def clearTimeout_def)

lemma keys_removeTypingIndicator:
  "GEMINI_API_KEY (removeTypingIndicator i s) = GEMINI_API_KEY s"
  "storage (removeTypingIndicator i s) = storage s"
  "stored_key (removeTypingIndicator i s) = stored_key s"
  by (simp_all add: removeTypingIndicator_def removeChild_def)

lemma readKey_readable:
  "truthy_string (GEMINI_API_KEY s) \<or> storage s \<noteq> Denied \<Longrightarrow>
   \<exists>k. readKey s = Inr k \<and>
       (truthy_string k \<longleftrightarrow> truthy_string (GEMINI_API_KEY s) \<or> truthy_string (stored_key s))"
  by (auto simp: readKey_def getItem_def)

lemma readKey_cong:
  "GEMINI_API_KEY s' = GEMINI_API_KEY s \<Longrightarrow> storage s' = storage s \<Longrightarrow>
   stored_key s' = stored_key s \<Longrightarrow> readKey s' = readKey s"
  by (simp add: readKey_def getItem_def)

lemma hint_cong:
  "GEMINI_API_KEY s' = GEMINI_API_KEY s \<Longrightarrow> stored_key s' = stored_key s \<Longrightarrow> hint s' = hint s"
  by (simp add: hint_def)

text \<open>
  The \<^verbatim>\<open>catch\<close> callback, when the key can be looked up: it logs the error and
  renders one message, whose wording depends only on whether the error is the
  AbortError and on whether a key is configured.
\<close>

lemma onError_rendered:
  assumes "truthy_string (GEMINI_API_KEY s) \<or> storage s \<noteq> Denied"
  shows "\<exists>s'. onError r e s = Inr s' \<and>
     rendered s' =
       rendered s @ [(ai_message, (if e = AbortError then timed_out else service_error) @ hint s)] \<and>
     ConsoleError e \<in> set (effects s')"
proof -
  let ?s1 = "removeTypingIndicator (req_typingIndicator r) s"
  let ?s2 = "?s1\<lparr>effects := effects ?s1 @ [ConsoleError e]\<rparr>"
  have k: "readKey ?s2 = readKey s"
    by (rule readKey_cong) (simp_all add: keys_removeTypingIndicator)
  from readKey_readable [OF assms] obtain k where
    rk: "readKey s = Inr k" and
    tk: "truthy_string k \<longleftrightarrow> truthy_string (GEMINI_API_KEY s) \<or> truthy_string (stored_key s)"
    by blast
  have r2: "rendered ?s2 = rendered s"
    using rendered_removeTypingIndicator [of "req_typingIndicator r" s] by (simp add: rendered_def)
  have c: "ConsoleError e \<in> set (effects (addMessage m (js ''ai'') ?s2))" for m
    by (simp add: addMessage_def appendChild_def)
  show ?thesis
    using rk tk r2 c
    by (simp add: onError_def Let_def k rendered_addMessage sender_ai hint_def)
qed

lemma settle_rejected:
  assumes "truthy_string (GEMINI_API_KEY s) \<or> storage s \<noteq> Denied"
  shows "rendered (settle r (Inl e) s) =
       rendered s @ [(ai_message, (if e = AbortError then timed_out else service_error) @ hint s)] \<and>
     ConsoleError e \<in> set (effects (settle r (Inl e) s))"
proof -
  from onError_rendered [OF assms, of r e] obtain s' where
    s': "onError r e s = Inr s'"
      "rendered s' =
         rendered s @ [(ai_message, (if e = AbortError then timed_out else service_error) @ hint s)]"
      "ConsoleError e \<in> set (effects s')"
    by blast
  have "settle r (Inl e) s = onFinally r s'"
    using s'(1) by (simp add: settle_def)
  moreover have "effects (onFinally r s') = effects s'"
    by (simp add: onFinally_def unlock_def clearTimeout_def)
  ultimately show ?thesis
    using s'(2,3) by (simp add: rendered_onFinally)
qed

text \<open>Conversions to a string and the extraction of the reply throw only TypeErrors.\<close>

lemma ToString_join_error:
  "ToString v = Inl e \<Longrightarrow> e = TypeError"
  "join sep xs = Inl e \<Longrightarrow> e = TypeError"
  by (induction v and sep xs rule: ToString_join.induct)
     (auto simp: and_then_def split: sum.splits if_splits)

lemma get_error: "get v k = Inl e \<Longrightarrow> e = TypeError"
  by (cases v) auto

lemma map_parts_error: "map_parts ps = Inl e \<Longrightarrow> e = TypeError"
  by (induction ps)
     (auto simp: part_text_def and_then_def dest: get_error split: sum.splits option.splits)

lemma reply_error: "reply data = Inl e \<Longrightarrow> e = TypeError"
  by (auto simp: reply_def and_then_def
      dest!: get_error map_parts_error ToString_join_error
      split: if_splits sum.splits option.splits json.splits list.splits)

lemma msg_error: "msg data status = Inl e \<Longrightarrow> e = TypeError"
  by (auto simp: msg_def apiErr_def and_then_def
      dest!: get_error ToString_join_error split: if_splits sum.splits option.splits)

text \<open>
  A call whose data the second callback cannot turn into a reply ends like any
  other failure.
\<close>

lemma settle_reply_throws:
  assumes "truthy_string (GEMINI_API_KEY s) \<or> storage s \<noteq> Denied" and "reply data = Inl e"
  shows "rendered (settle r (Inr data) s) = rendered s @ [(ai_message, service_error @ hint s)] \<and>
     ConsoleError TypeError \<in> set (effects (settle r (Inr data) s))"
proof -
  let ?s1 = "removeTypingIndicator (req_typingIndicator r) s"
  have e: "e = TypeError"
    using assms(2) by (rule reply_error)
  have rd: "truthy_string (GEMINI_API_KEY ?s1) \<or> storage ?s1 \<noteq> Denied"
    using assms(1) by (simp add: keys_removeTypingIndicator)
  from onError_rendered [OF rd, of r TypeError] obtain s' where
    s': "onError r TypeError ?s1 = Inr s'"
      "rendered s' = rendered ?s1 @ [(ai_message, service_error @ hint ?s1)]"
      "ConsoleError TypeError \<in> set (effects s')"
    by auto
  have "settle r (Inr data) s = onFinally r s'"
    using s'(1) assms(2) e by (simp add: settle_def onData_def Let_def)
  moreover have "effects (onFinally r s') = effects s'"
    by (simp add: onFinally_def unlock_def clearTimeout_def)
  moreover have "hint ?s1 = hint s"
    by (rule hint_cong) (simp_all add: keys_removeTypingIndicator)
  ultimately show ?thesis
    using s'(2,3) by (simp add: rendered_onFinally rendered_removeTypingIndicator)
qed

section \<open>The example run\<close>

text \<open>\<^verbatim>\<open>Hello\<close> has been sent with the key \<^verbatim>\<open>k1\<close> and the response has arrived.\<close>

lemma reading_sent:
  "find (\<lambda>e. fst e = hello_call (js ''k1''))
     (reading (responseArrives (hello_call (js ''k1'')) status (sent (js ''k1'')))) =
   Some (hello_call (js ''k1''), status)"
  by (simp add: sent_def sendMessage_def after_def responseArrives_def page_defs dom_defs
      key_defs string_defs Let_def)

lemma key_sent:
  "GEMINI_API_KEY (responseArrives (hello_call (js ''k1'')) status (sent (js ''k1''))) =
   Some (js ''k1'')"
  "truthy_string (Some (js ''k1''))"
  by (simp_all add: sent_def sendMessage_def after_def responseArrives_def page_defs dom_defs
      key_defs string_defs Let_def)

lemma rendered_sent:
  "rendered (responseArrives (hello_call (js ''k1'')) status (sent (js ''k1''))) =
   [(user_message, js ''Hello'')]"
  by (simp add: sent_def sendMessage_def observer_defs responseArrives_def page_defs dom_defs
      key_defs string_defs Let_def)

section \<open>An error message in the response body\<close>

text \<open>
  The body of a response with a failure status arrives and parses: the first
  callback throws an error, which is never the AbortError.
\<close>

lemma bodyArrives_failure_status:
  assumes "find (\<lambda>e. fst e = r) (reading s) = Some (r, status)" and "\<not> ok status"
    and "truthy_string (GEMINI_API_KEY s) \<or> storage s \<noteq> Denied \<and> truthy_string (stored_key s)"
  shows "rendered (bodyArrives r (Some data) s) = rendered s @ [(ai_message, service_error)] \<and>
     ConsoleError (case msg data status of Inl e \<Rightarrow> e | Inr m \<Rightarrow> Error m)
       \<in> set (effects (bodyArrives r (Some data) s))"
proof -
  let ?s0 = "s\<lparr>reading := filter (\<lambda>e. fst e \<noteq> r) (reading s)\<rparr>"
  let ?e = "case msg data status of Inl e \<Rightarrow> e | Inr m \<Rightarrow> Error m"
  have b: "bodyArrives r (Some data) s = settle r (Inl ?e) ?s0"
    using assms(1,2) by (simp add: bodyArrives_def onResponse_def split: sum.splits)
  have ne: "?e \<noteq> AbortError"
    by (auto dest: msg_error split: sum.splits)
  have rd: "truthy_string (GEMINI_API_KEY ?s0) \<or> storage ?s0 \<noteq> Denied"
    using assms(3) by auto
  have h: "hint ?s0 = []"
    using assms(3) by (auto simp: hint_def)
  have r0: "rendered ?s0 = rendered s"
    by (simp add: rendered_def)
  show ?thesis
    using settle_rejected [OF rd, of r ?e] ne by (simp add: b h r0)
qed

lemma msg_embedded:
  assumes "get data (js ''error'') = Inr (Some e)"
    and "get e (js ''message'') = Inr (Some (JStr m))" and "m \<noteq> []"
  shows "msg data status = Inr (js ''API error: '' @ m)"
proof -
  have "truthy data" using assms(1) by (cases data) auto
  moreover have "truthy e" using assms(2) by (cases e) auto
  ultimately show ?thesis
    using assms by (simp add: msg_def apiErr_def and_then_def)
qed

text \<open>
  C1, as the specification states it, fails. \<^verbatim>\<open>Hello\<close> is sent with a key saved,
  the response has status 429 and the body
  \<^verbatim>\<open>{"error":{"message":"quota exceeded"}}\<close>. The first callback throws
  \<^verbatim>\<open>Error('API error: quota exceeded')\<close>, the \<^verbatim>\<open>catch\<close> callback logs it and
  renders its fixed text, in which \<^verbatim>\<open>quota exceeded\<close> does not occur.
\<close>

theorem quota_message_not_shown:
  "rendered (bodyArrives (hello_call (js ''k1'')) (Some quota_body)
      (responseArrives (hello_call (js ''k1'')) 429 (sent (js ''k1'')))) =
     [(user_message, js ''Hello''), (ai_message, service_error)] \<and>
   \<not> sublist (js ''quota exceeded'') service_error"
proof -
  let ?r = "hello_call (js ''k1'')"
  let ?s = "responseArrives ?r 429 (sent (js ''k1''))"
  have "\<not> sublist (js ''quota exceeded'') service_error"
    by (simp add: service_error_def js_def sublist_Cons_right)
  moreover have "find (\<lambda>e. fst e = ?r) (reading ?s) = Some (?r, 429)"
    by (rule reading_sent)
  moreover have "\<not> ok 429"
    by (simp add: ok_def)
  moreover have "truthy_string (GEMINI_API_KEY ?s)"
    by (simp add: key_sent)
  moreover have "rendered ?s = [(user_message, js ''Hello'')]"
    by (rule rendered_sent)
  ultimately show ?thesis
    using bodyArrives_failure_status [of ?r ?s 429 quota_body] by simp
qed

text \<open>
  C1, amended. A call whose response has arrived with a failure status is waiting
  for its body, and a key is configured. When the body arrives and parses, whatever
  it holds, the one message rendered is the fixed text
  \<^verbatim>\<open>An error occurred while contacting the Gemini service.\<close>; the error that is
  logged to the console is the one that the first callback threw, and when the body
  has a non-empty string at \<^verbatim>\<open>error.message\<close> that error is
  \<^verbatim>\<open>Error('API error: ' + message)\<close>.
\<close>

theorem api_error_generic_message:
  assumes "find (\<lambda>e. fst e = r) (reading s) = Some (r, status)" and "\<not> ok status"
    and "truthy_string (GEMINI_API_KEY s) \<or> storage s \<noteq> Denied \<and> truthy_string (stored_key s)"
  shows "rendered (bodyArrives r (Some data) s) = rendered s @ [(ai_message, service_error)] \<and>
     ConsoleError (case msg data status of Inl e \<Rightarrow> e | Inr m \<Rightarrow> Error m)
       \<in> set (effects (bodyArrives r (Some data) s)) \<and>
     (\<forall>e m. get data (js ''error'') = Inr (Some e) \<and> get e (js ''message'') = Inr (Some (JStr m)) \<and>
        m \<noteq> [] \<longrightarrow> msg data status = Inr (js ''API error: '' @ m))"
  using bodyArrives_failure_status [OF assms] msg_embedded by blast

theorem api_error_generic_message_witness:
  "find (\<lambda>e. fst e = hello_call (js ''k1''))
     (reading (responseArrives (hello_call (js ''k1'')) 429 (sent (js ''k1'')))) =
     Some (hello_call (js ''k1''), 429) \<and>
   \<not> ok 429 \<and>
   truthy_string (GEMINI_API_KEY (responseArrives (hello_call (js ''k1'')) 429 (sent (js ''k1'')))) \<and>
   get quota_body (js ''error'') = Inr (Some (JObj [(js ''message'', JStr (js ''quota exceeded''))])) \<and>
   ConsoleError (Error (js ''API error: quota exceeded''))
     \<in> set (effects (bodyArrives (hello_call (js ''k1'')) (Some quota_body)
          (responseArrives (hello_call (js ''k1'')) 429 (sent (js ''k1''))))) \<and>
   rendered (bodyArrives (hello_call (js ''k1'')) (Some quota_body)
      (responseArrives (hello_call (js ''k1'')) 429 (sent (js ''k1'')))) =
     [(user_message, js ''Hello''), (ai_message, service_error)]"
proof -
  let ?r = "hello_call (js ''k1'')"
  let ?s = "responseArrives ?r 429 (sent (js ''k1''))"
  have f: "find (\<lambda>e. fst e = ?r) (reading ?s) = Some (?r, 429)"
    by (rule reading_sent)
  have o: "\<not> ok 429"
    by (simp add: ok_def)
  have k: "truthy_string (GEMINI_API_KEY ?s)"
    by (simp add: key_sent)
  have k': "truthy_string (GEMINI_API_KEY ?s) \<or> storage ?s \<noteq> Denied \<and> truthy_string (stored_key ?s)"
    using k by simp
  have g: "get quota_body (js ''error'') =
      Inr (Some (JObj [(js ''message'', JStr (js ''quota exceeded''))]))"
    by (simp add: quota_body_def)
  have g': "get (JObj [(js ''message'', JStr (js ''quota exceeded''))]) (js ''message'') =
      Inr (Some (JStr (js ''quota exceeded'')))"
    by simp
  have n: "js ''quota exceeded'' \<noteq> []"
    by (simp add: js_def)
  have a: "js ''API error: '' @ js ''quota exceeded'' = js ''API error: quota exceeded''"
    by (simp add: js_def)
  from api_error_generic_message [OF f o k', of quota_body] g g' n
  have m: "msg quota_body 429 = Inr (js ''API error: '' @ js ''quota exceeded'')"
    by blast
  show ?thesis
    using api_error_generic_message [OF f o k', of quota_body] f o k g
    by (simp add: m rendered_sent a)
qed

section \<open>The timeout\<close>

lemma timerFires_abort:
  assumes "find (\<lambda>e. fst e = t) (timers s) = Some (t, ms, AbortFetch)"
    and "find (\<lambda>x. req_timeoutId x = t) (fetching s) = Some r"
  shows "timerFires t s =
     settle r (Inl AbortError)
       (s\<lparr>timers := filter (\<lambda>e. fst e \<noteq> t) (timers s), fetching := removeAll r (fetching s)\<rparr>)"
  using assms by (simp add: timerFires_def abort_def)

lemma fetching_settle: "fetching (settle r x s) = fetching s"
  by (auto simp: chain_defs dom_defs key_defs Let_def split: sum.splits prod.splits)

lemma tip_not_empty: "tip \<noteq> []"
  by (simp add: tip_def js_def)

lemma wording_differs: "timed_out @ h \<noteq> service_error @ h"
  by (simp add: timed_out_def service_error_def js_def)

text \<open>
  The timer fires before the response has arrived. A call is waiting for its
  response and its timer, set to 15000 ms, is pending; the global holds a key or
  the storage can be read, as in every state that the page reaches with a call in
  flight. When the timer fires, the call is taken out of flight and the message
  rendered is \<^verbatim>\<open>The request timed out. Please try again.\<close>; every other error that
  rejects the call, and a reply that cannot be extracted, renders
  \<^verbatim>\<open>An error occurred while contacting the Gemini service.\<close> instead; the two
  wordings differ. In both cases the tip to save a key follows exactly when
  neither the global nor the store holds a non-empty key.
\<close>

theorem timeout_distinguished:
  assumes "find (\<lambda>x. req_timeoutId x = t) (fetching s) = Some r"
    and "find (\<lambda>e. fst e = t) (timers s) = Some (t, 15000, AbortFetch)"
    and "truthy_string (GEMINI_API_KEY s) \<or> storage s \<noteq> Denied"
  shows "rendered (timerFires t s) = rendered s @ [(ai_message, timed_out @ hint s)] \<and>
     r \<notin> set (fetching (timerFires t s)) \<and>
     (\<forall>e. e \<noteq> AbortError \<longrightarrow>
        rendered (settle r (Inl e) s) = rendered s @ [(ai_message, service_error @ hint s)]) \<and>
     (\<forall>data e. reply data = Inl e \<longrightarrow>
        rendered (settle r (Inr data) s) = rendered s @ [(ai_message, service_error @ hint s)]) \<and>
     timed_out @ hint s \<noteq> service_error @ hint s \<and>
     (hint s = tip \<longleftrightarrow>
        \<not> truthy_string (GEMINI_API_KEY s) \<and> \<not> truthy_string (stored_key s))"
proof -
  let ?s0 = "s\<lparr>timers := filter (\<lambda>e. fst e \<noteq> t) (timers s),
               fetching := removeAll r (fetching s)\<rparr>"
  have f: "timerFires t s = settle r (Inl AbortError) ?s0"
    using assms(2,1) by (rule timerFires_abort)
  have rd: "truthy_string (GEMINI_API_KEY ?s0) \<or> storage ?s0 \<noteq> Denied"
    using assms(3) by simp
  have "rendered ?s0 = rendered s" "hint ?s0 = hint s"
    by (simp_all add: rendered_def hint_def)
  then have 1: "rendered (timerFires t s) = rendered s @ [(ai_message, timed_out @ hint s)]"
    using settle_rejected [OF rd, of r AbortError] by (simp add: f)
  have 2: "r \<notin> set (fetching (timerFires t s))"
    by (simp add: f fetching_settle)
  have 3: "rendered (settle r (Inl e) s) = rendered s @ [(ai_message, service_error @ hint s)]"
    if "e \<noteq> AbortError" for e
    using settle_rejected [OF assms(3), of r e] that by simp
  have 4: "rendered (settle r (Inr data) s) = rendered s @ [(ai_message, service_error @ hint s)]"
    if "reply data = Inl e" for data e
    using settle_reply_throws [OF assms(3) that, of r] by simp
  have 5: "hint s = tip \<longleftrightarrow>
      \<not> truthy_string (GEMINI_API_KEY s) \<and> \<not> truthy_string (stored_key s)"
    using tip_not_empty by (auto simp: hint_def)
  show ?thesis
    using 1 2 3 4 5 wording_differs by blast
qed

text \<open>
  The witness: \<^verbatim>\<open>Hello\<close> is in flight, the user empties the key field and clicks
  Save, which clears the key, and then the timer fires.
\<close>

theorem timeout_distinguished_witness:
  "find (\<lambda>x. req_timeoutId x = 0)
     (fetching (saveTokenBtn_click (userTypesKey [] (sent (js ''k1''))))) =
     Some (hello_call (js ''k1'')) \<and>
   find (\<lambda>e. fst e = 0) (timers (saveTokenBtn_click (userTypesKey [] (sent (js ''k1''))))) =
     Some (0, 15000, AbortFetch) \<and>
   storage (saveTokenBtn_click (userTypesKey [] (sent (js ''k1'')))) \<noteq> Denied \<and>
   hint (saveTokenBtn_click (userTypesKey [] (sent (js ''k1'')))) = tip \<and>
   rendered (timerFires 0 (saveTokenBtn_click (userTypesKey [] (sent (js ''k1''))))) =
     [(user_message, js ''Hello''), (ai_message, timed_out @ tip)] \<and>
   rendered (settle (hello_call (js ''k1'')) (Inl TypeError)
       (saveTokenBtn_click (userTypesKey [] (sent (js ''k1''))))) =
     [(user_message, js ''Hello''), (ai_message, service_error @ tip)]"
proof -
  let ?s = "saveTokenBtn_click (userTypesKey [] (sent (js ''k1'')))"
  have f: "find (\<lambda>x. req_timeoutId x = 0) (fetching ?s) = Some (hello_call (js ''k1''))"
    by (simp add: sent_def sendMessage_def after_def saveTokenBtn_click_def page_defs dom_defs
        key_defs string_defs Let_def)
  have t: "find (\<lambda>e. fst e = 0) (timers ?s) = Some (0, 15000, AbortFetch)"
    by (simp add: sent_def sendMessage_def after_def saveTokenBtn_click_def page_defs dom_defs
        key_defs string_defs Let_def)
  have st: "storage ?s \<noteq> Denied"
    by (simp add: sent_def sendMessage_def after_def saveTokenBtn_click_def page_defs dom_defs
        key_defs string_defs Let_def)
  have k: "truthy_string (GEMINI_API_KEY ?s) \<or> storage ?s \<noteq> Denied"
    using st by simp
  have h: "hint ?s = tip"
    by (simp add: sent_def sendMessage_def observer_defs saveTokenBtn_click_def page_defs
        dom_defs key_defs string_defs Let_def)
  have r: "rendered ?s = [(user_message, js ''Hello'')]"
    by (simp add: sent_def sendMessage_def observer_defs saveTokenBtn_click_def page_defs
        dom_defs key_defs string_defs Let_def)
  have ne: "TypeError \<noteq> AbortError"
    by simp
  show ?thesis
    using timeout_distinguished [OF f t k] f t st ne by (simp add: h r)
qed

section \<open>The reply\<close>

text \<open>
  C8 fails on the code. \<^verbatim>\<open>Hello\<close> is sent with a key saved; the response has
  status 200 and the body \<^verbatim>\<open>{"candidates":[{"content":{"parts":[null]}}]}\<close>,
  which parses. The first callback passes the data on; in the second,
  \<^verbatim>\<open>p.text\<close> on the \<^verbatim>\<open>null\<close> part throws a TypeError, and the \<^verbatim>\<open>catch\<close>
  callback logs it and renders the text for failures: neither the concatenated
  text nor the fixed text for an empty reply, and the turn ends as an error.
\<close>

theorem null_part_is_failure:
  "onResponse 200 (Some null_part_body) = Inr null_part_body \<and>
   reply null_part_body = Inl TypeError \<and>
   rendered (bodyArrives (hello_call (js ''k1'')) (Some null_part_body)
      (responseArrives (hello_call (js ''k1'')) 200 (sent (js ''k1'')))) =
     [(user_message, js ''Hello''), (ai_message, service_error)] \<and>
   ConsoleError TypeError
     \<in> set (effects (bodyArrives (hello_call (js ''k1'')) (Some null_part_body)
          (responseArrives (hello_call (js ''k1'')) 200 (sent (js ''k1'')))))"
proof -
  let ?r = "hello_call (js ''k1'')"
  let ?s = "responseArrives ?r 200 (sent (js ''k1''))"
  let ?q = "?s\<lparr>reading := filter (\<lambda>e. fst e \<noteq> ?r) (reading ?s)\<rparr>"
  have o: "onResponse 200 (Some null_part_body) = Inr null_part_body"
    by (simp add: onResponse_def ok_def)
  have t: "reply null_part_body = Inl TypeError"
    by (simp add: reply_def null_part_body_def part_text_def and_then_def)
  have b: "bodyArrives ?r (Some null_part_body) ?s = settle ?r (Inr null_part_body) ?q"
    by (simp add: bodyArrives_def reading_sent o)
  have rd: "truthy_string (GEMINI_API_KEY ?q) \<or> storage ?q \<noteq> Denied"
    by (simp add: key_sent)
  have h: "hint ?q = []"
    by (simp add: hint_def key_sent)
  have r0: "rendered ?q = [(user_message, js ''Hello'')]"
    using rendered_sent [of 200] by (simp add: rendered_def)
  show ?thesis
    using settle_reply_throws [OF rd t, of ?r] by (simp add: o t b h r0)
qed

section \<open>The key lookup while a call is in flight\<close>

text \<open>
  What settles a call touches neither the key nor the storage, and adds no call.
\<close>

lemma onFinally_frame:
  "GEMINI_API_KEY (onFinally r s) = GEMINI_API_KEY s"
  "storage (onFinally r s) = storage s"
  "stored_key (onFinally r s) = stored_key s"
  "reading (onFinally r s) = reading s"
  "fetching (onFinally r s) = fetching s"
  by (simp_all add: onFinally_def unlock_def clearTimeout_def)

lemma addMessage_frame:
  "GEMINI_API_KEY (addMessage m c s) = GEMINI_API_KEY s"
  "storage (addMessage m c s) = storage s"
  "stored_key (addMessage m c s) = stored_key s"
  "reading (addMessage m c s) = reading s"
  "fetching (addMessage m c s) = fetching s"
  by (simp_all add: addMessage_def appendChild_def)

lemma removeTypingIndicator_frame:
  "reading (removeTypingIndicator i s) = reading s"
  "fetching (removeTypingIndicator i s) = fetching s"
  by (simp_all add: removeTypingIndicator_def removeChild_def)

lemmas frame = onFinally_frame addMessage_frame removeTypingIndicator_frame
  keys_removeTypingIndicator

lemma onError_frame:
  "GEMINI_API_KEY (after (onError r e s)) = GEMINI_API_KEY s"
  "storage (after (onError r e s)) = storage s"
  "stored_key (after (onError r e s)) = stored_key s"
  "reading (after (onError r e s)) = reading s"
  "fetching (after (onError r e s)) = fetching s"
  by (simp_all add: onError_def after_def Let_def frame split: sum.splits)

lemma onData_frame:
  "GEMINI_API_KEY (after (onData r d s)) = GEMINI_API_KEY s"
  "storage (after (onData r d s)) = storage s"
  "stored_key (after (onData r d s)) = stored_key s"
  "reading (after (onData r d s)) = reading s"
  "fetching (after (onData r d s)) = fetching s"
  by (simp_all add: onData_def after_def Let_def frame split: sum.splits)

text \<open>The chain, by the states its callbacks leave.\<close>

lemma settle_steps:
  "settle r (Inl e) s = onFinally r (after (onError r e s)) \<or>
   (\<exists>e'. settle r (Inl e) s =
      (onFinally r (after (onError r e s)))
        \<lparr>effects := effects (onFinally r (after (onError r e s))) @ [UnhandledRejection e']\<rparr>)"
  "settle r (Inr d) s = onFinally r (after (onData r d s)) \<or>
   settle r (Inr d) s = settle r (Inl (fst (projl (onData r d s)))) (after (onData r d s))"
  by (auto simp: settle_def after_def Let_def split: sum.splits prod.splits)

lemma settle_Inl_frame:
  "GEMINI_API_KEY (settle r (Inl e) s) = GEMINI_API_KEY s"
  "storage (settle r (Inl e) s) = storage s"
  "stored_key (settle r (Inl e) s) = stored_key s"
  "reading (settle r (Inl e) s) = reading s"
  "fetching (settle r (Inl e) s) = fetching s"
  using settle_steps(1) [of r e s] by (auto simp: onFinally_frame onError_frame)

lemma settle_frame:
  "GEMINI_API_KEY (settle r x s) = GEMINI_API_KEY s"
  "storage (settle r x s) = storage s"
  "stored_key (settle r x s) = stored_key s"
  "reading (settle r x s) = reading s"
  "fetching (settle r x s) = fetching s"
proof -
  show "GEMINI_API_KEY (settle r x s) = GEMINI_API_KEY s"
  proof (cases x)
    case (Inl e) then show ?thesis by (simp add: settle_Inl_frame)
  next
    case (Inr d) then show ?thesis
      using settle_steps(2) [of r d s] by (auto simp: settle_Inl_frame onFinally_frame onData_frame)
  qed
  show "storage (settle r x s) = storage s"
  proof (cases x)
    case (Inl e) then show ?thesis by (simp add: settle_Inl_frame)
  next
    case (Inr d) then show ?thesis
      using settle_steps(2) [of r d s] by (auto simp: settle_Inl_frame onFinally_frame onData_frame)
  qed
  show "stored_key (settle r x s) = stored_key s"
  proof (cases x)
    case (Inl e) then show ?thesis by (simp add: settle_Inl_frame)
  next
    case (Inr d) then show ?thesis
      using settle_steps(2) [of r d s] by (auto simp: settle_Inl_frame onFinally_frame onData_frame)
  qed
  show "reading (settle r x s) = reading s"
  proof (cases x)
    case (Inl e) then show ?thesis by (simp add: settle_Inl_frame)
  next
    case (Inr d) then show ?thesis
      using settle_steps(2) [of r d s] by (auto simp: settle_Inl_frame onFinally_frame onData_frame)
  qed
  show "fetching (settle r x s) = fetching s"
  proof (cases x)
    case (Inl e) then show ?thesis by (simp add: settle_Inl_frame)
  next
    case (Inr d) then show ?thesis
      using settle_steps(2) [of r d s] by (auto simp: settle_Inl_frame onFinally_frame onData_frame)
  qed
qed

lemma removeAll_not_empty: "removeAll r xs \<noteq> [] \<Longrightarrow> xs \<noteq> []"
  by auto

lemma filter_not_empty: "filter P xs \<noteq> [] \<Longrightarrow> xs \<noteq> []"
  by auto

lemma key_readable_settle: "key_readable (settle r x s) = key_readable s"
  by (simp add: key_readable_def settle_frame)

lemma in_flight_settle: "in_flight (settle r x s) = in_flight s"
  by (simp add: in_flight_def settle_frame)

lemma abort_inv:
  "key_readable (abort t s) = key_readable s" "in_flight (abort t s) \<Longrightarrow> in_flight s"
proof -
  show "key_readable (abort t s) = key_readable s"
    by (simp add: abort_def key_readable_def settle_frame split: option.splits prod.splits)
  show "in_flight (abort t s) \<Longrightarrow> in_flight s"
    by (auto simp: abort_def settle_frame in_flight_def
        dest: removeAll_not_empty filter_not_empty split: option.splits prod.splits)
qed

lemma timerFires_inv:
  "key_readable (timerFires t s) = key_readable s" "in_flight (timerFires t s) \<Longrightarrow> in_flight s"
proof -
  let ?s1 = "s\<lparr>timers := filter (\<lambda>e. fst e \<noteq> t) (timers s)\<rparr>"
  have k: "key_readable ?s1 = key_readable s" and f: "in_flight ?s1 = in_flight s"
    by (simp_all add: key_readable_def in_flight_def)
  show "key_readable (timerFires t s) = key_readable s"
  proof (cases "find (\<lambda>e. fst e = t) (timers s)")
    case None
    then show ?thesis by (simp add: timerFires_def)
  next
    case (Some e)
    then show ?thesis
      using k abort_inv(1) [of t ?s1]
      by (cases e; cases "snd (snd e)") (auto simp: timerFires_def key_readable_def)
  qed
  show "in_flight s" if a: "in_flight (timerFires t s)"
  proof (cases "find (\<lambda>e. fst e = t) (timers s)")
    case None
    then show ?thesis using a by (simp add: timerFires_def)
  next
    case (Some e)
    then show ?thesis
      using a f abort_inv(2) [of t ?s1]
      by (cases e; cases "snd (snd e)") (auto simp: timerFires_def in_flight_def)
  qed
qed

lemma fetchFails_inv:
  "key_readable (fetchFails r s) = key_readable s" "in_flight (fetchFails r s) \<Longrightarrow> in_flight s"
  by (auto simp: fetchFails_def settle_frame key_readable_def in_flight_def
      dest: removeAll_not_empty)

lemma responseArrives_inv:
  "key_readable (responseArrives r status s) = key_readable s"
  "in_flight (responseArrives r status s) \<Longrightarrow> in_flight s"
  by (auto simp: responseArrives_def key_readable_def in_flight_def split: if_splits)

lemma bodyArrives_inv:
  "key_readable (bodyArrives r b s) = key_readable s" "in_flight (bodyArrives r b s) \<Longrightarrow> in_flight s"
  by (auto simp: bodyArrives_def settle_frame key_readable_def in_flight_def
      dest: filter_not_empty split: option.splits prod.splits)

lemma saveTokenBtn_click_inv:
  "key_readable s \<Longrightarrow> key_readable (saveTokenBtn_click s)"
  "in_flight (saveTokenBtn_click s) = in_flight s"
  by (auto simp: saveTokenBtn_click_def saveFailed_def in_flight_def key_readable_def
      key_defs setTimeout_def Let_def split: if_splits)

lemma sendMessage_inv:
  "key_readable (after (sendMessage s)) = key_readable s"
  "in_flight (after (sendMessage s)) \<Longrightarrow> in_flight s \<or> key_readable s"
proof -
  let ?m = "trim (userInput_value s)"
  let ?s2 = "(addMessage ?m (js ''user'') s)\<lparr>userInput_value := [], userInput_disabled := True,
      userInput_focused := False, sendButton_disabled := True\<rparr>"
  let ?s4 = "snd (setTimeout AbortFetch 15000 (snd (addTypingIndicator ?s2)))"
  have k4: "GEMINI_API_KEY ?s4 = GEMINI_API_KEY s" "storage ?s4 = storage s"
    "stored_key ?s4 = stored_key s" "fetching ?s4 = fetching s" "reading ?s4 = reading s"
    by (simp_all add: dom_defs)
  have km: "GEMINI_API_KEY (keyMissing i ?s4) = GEMINI_API_KEY s"
    "storage (keyMissing i ?s4) = storage s"
    "fetching (keyMissing i ?s4) = fetching s" "reading (keyMissing i ?s4) = reading s" for i
    by (simp_all add: dom_defs)
  have cases: "after (sendMessage s) = s \<or> after (sendMessage s) = ?s4 \<or>
      after (sendMessage s) = keyMissing (fst (addTypingIndicator ?s2)) ?s4 \<or>
      (\<exists>r. after (sendMessage s) = ?s4\<lparr>fetching := fetching ?s4 @ [r],
          effects := effects ?s4 @ [Fetch r]\<rparr> \<and> (\<exists>k. readKey ?s4 = Inr k))"
    by (auto simp: sendMessage_def after_def Let_def split_beta split: sum.splits option.splits)
  have rk: "key_readable s" if "readKey ?s4 = Inr k" for k
    using that k4 by (auto simp: readKey_def getItem_def key_readable_def split: if_splits)
  show "key_readable (after (sendMessage s)) = key_readable s"
    using cases k4 km by (auto simp: key_readable_def)
  show "in_flight (after (sendMessage s)) \<Longrightarrow> in_flight s \<or> key_readable s"
    using cases k4 km rk by (auto simp: in_flight_def)
qed

text \<open>
  In every state that the page reaches with a call in flight, the global holds a
  key or the storage can be read: the lookup of the \<^verbatim>\<open>catch\<close> callback does not
  throw.
\<close>

lemma reachable_key_readable: "reachable s \<Longrightarrow> in_flight s \<Longrightarrow> key_readable s"
proof (induction rule: reachable.induct)
  case (loaded st k)
  then show ?case
    by (simp add: in_flight_def page_defs key_defs split: if_splits sum.splits)
next
  case (typed s v)
  then show ?case by (simp add: in_flight_def key_readable_def userTypes_def split: if_splits)
next
  case (typed_key s v)
  then show ?case by (simp add: in_flight_def key_readable_def userTypesKey_def)
next
  case (saved s)
  then show ?case by (simp add: saveTokenBtn_click_inv)
next
  case (submitted s)
  then show ?case using sendMessage_inv [of s] by blast
next
  case (timer s t)
  then show ?case using timerFires_inv [of t s] by blast
next
  case (failed s r)
  then show ?case using fetchFails_inv [of r s] by blast
next
  case (response s r status)
  then show ?case using responseArrives_inv [of r status s] by blast
next
  case (body s r b)
  then show ?case using bodyArrives_inv [of r b s] by blast
next
  case (other_tab s k)
  then show ?case by (simp add: in_flight_def key_readable_def)
qed

text \<open>The example pages are states of this kind.\<close>

lemma reachable_hello: "reachable (hello st k)"
  unfolding hello_def by (intro reachable.typed reachable.loaded)

lemma reachable_sent: "reachable (sent k)"
  unfolding sent_def by (intro reachable.submitted reachable_hello)

lemma reachable_two_keys:
  "reachable ((hello Available (Some (js ''A'')))\<lparr>stored_key := Some (js ''B'')\<rparr>)"
proof -
  have "storage (hello Available (Some (js ''A''))) \<noteq> Denied"
    by (simp add: page_defs key_defs)
  then show ?thesis
    by (intro reachable.other_tab reachable_hello)
qed

section \<open>Replies that can be extracted\<close>

lemma bodyArrives_ok:
  assumes "find (\<lambda>e. fst e = r) (reading s) = Some (r, status)" and "ok status"
  shows "bodyArrives r (Some data) s =
     settle r (Inr data) (s\<lparr>reading := filter (\<lambda>e. fst e \<noteq> r) (reading s)\<rparr>)"
  using assms by (simp add: bodyArrives_def onResponse_def)

text \<open>
  When the extraction does not throw, the second callback renders the reply, or
  the fixed text when the reply is empty, and the \<^verbatim>\<open>catch\<close> callback does not run.
\<close>

lemma settle_reply:
  assumes "reply data = Inr t"
  shows "effects (settle r (Inr data) s) =
     effects (removeTypingIndicator (req_typingIndicator r) s) @
       [AppendChild (next_node s) (MessageDiv ai_message (if t = [] then no_reply else t))]"
proof -
  let ?s1 = "removeTypingIndicator (req_typingIndicator r) s"
  have n: "next_node ?s1 = next_node s"
    by (simp add: removeTypingIndicator_def removeChild_def)
  have "settle r (Inr data) s =
      onFinally r (addMessage (if t = [] then no_reply else t) (js ''ai'') ?s1)"
    using assms by (simp add: settle_def onData_def Let_def)
  then show ?thesis
    by (simp add: onFinally_def unlock_def clearTimeout_def addMessage_def appendChild_def
        sender_ai n)
qed

lemma map_parts_texts:
  "map_parts (map (\<lambda>t. JObj [(js ''text'', JStr t)]) ts) = Inr (map JStr ts)"
  by (induction ts) (auto simp: part_text_def and_then_def)

lemma join_texts: "join [] (map JStr ts) = Inr (concat ts)"
proof (induction ts)
  case Nil
  then show ?case by simp
next
  case (Cons t ts)
  then show ?case by (cases ts) (simp_all add: and_then_def)
qed

text \<open>
  On a body of the documented shape the reply is the concatenation of the texts of
  the first candidate's parts, trimmed.
\<close>

lemma reply_documented_shape:
  "reply (JObj [(js ''candidates'',
      JArr (JObj [(js ''content'',
        JObj [(js ''parts'', JArr (map (\<lambda>t. JObj [(js ''text'', JStr t)]) ts))])] # rest))]) =
   Inr (trim (concat ts))"
  by (simp add: reply_def and_then_def map_parts_texts join_texts)

text \<open>The two scenarios of the specification with status 200.\<close>

lemma reply_hi_there: "reply hi_there_body = Inr (js ''Hi there'')"
proof -
  have "trim (concat [js ''Hi there'']) = js ''Hi there''"
    by (simp add: string_defs)
  then show ?thesis
    using reply_documented_shape [of "[js ''Hi there'']" "[]"] by (simp add: hi_there_body_def)
qed

lemma reply_no_candidates: "reply no_candidates_body = Inr []"
  by (simp add: reply_def no_candidates_body_def and_then_def)

lemma rendered_hi_there:
  "rendered (bodyArrives (hello_call (js ''k1'')) (Some hi_there_body)
      (responseArrives (hello_call (js ''k1'')) 200 (sent (js ''k1'')))) =
   [(user_message, js ''Hello''), (ai_message, js ''Hi there'')]"
proof -
  let ?r = "hello_call (js ''k1'')"
  let ?s = "responseArrives ?r 200 (sent (js ''k1''))"
  let ?q = "?s\<lparr>reading := filter (\<lambda>e. fst e \<noteq> ?r) (reading ?s)\<rparr>"
  have b: "bodyArrives ?r (Some hi_there_body) ?s = settle ?r (Inr hi_there_body) ?q"
    by (rule bodyArrives_ok [OF reading_sent]) (simp add: ok_def)
  have r0: "rendered ?q = [(user_message, js ''Hello'')]"
    using rendered_sent [of 200] by (simp add: rendered_def)
  have n: "js ''Hi there'' \<noteq> []"
    by (simp add: js_def)
  show ?thesis
    using settle_reply [OF reply_hi_there, of ?r ?q] r0 n
      rendered_removeTypingIndicator [of "req_typingIndicator ?r" ?q]
    by (simp add: b rendered_def)
qed

lemma rendered_no_candidates:
  "rendered (bodyArrives (hello_call (js ''k1'')) (Some no_candidates_body)
      (responseArrives (hello_call (js ''k1'')) 200 (sent (js ''k1'')))) =
   [(user_message, js ''Hello''), (ai_message, no_reply)]"
proof -
  let ?r = "hello_call (js ''k1'')"
  let ?s = "responseArrives ?r 200 (sent (js ''k1''))"
  let ?q = "?s\<lparr>reading := filter (\<lambda>e. fst e \<noteq> ?r) (reading ?s)\<rparr>"
  have b: "bodyArrives ?r (Some no_candidates_body) ?s = settle ?r (Inr no_candidates_body) ?q"
    by (rule bodyArrives_ok [OF reading_sent]) (simp add: ok_def)
  have r0: "rendered ?q = [(user_message, js ''Hello'')]"
    using rendered_sent [of 200] by (simp add: rendered_def)
  show ?thesis
    using settle_reply [OF reply_no_candidates, of ?r ?q] r0
      rendered_removeTypingIndicator [of "req_typingIndicator ?r" ?q]
    by (simp add: b rendered_def)
qed

section \<open>Removing the typing indicator\<close>

lemma effects_removeTypingIndicator:
  "effects (removeTypingIndicator i s) = effects s @ (if attached i s then [RemoveChild i] else [])"
  by (simp add: removeTypingIndicator_def removeChild_def)

lemma detached_removeTypingIndicator: "\<not> attached i (removeTypingIndicator i s)"
  by (auto simp: removeTypingIndicator_def removeChild_def attached_def)

lemma next_node_removeTypingIndicator: "next_node (removeTypingIndicator i s) = next_node s"
  by (simp add: removeTypingIndicator_def removeChild_def)

lemma attached_addMessage:
  "attached i (addMessage m c s) \<longleftrightarrow> attached i s \<or> i = next_node s"
  by (auto simp: addMessage_def appendChild_def attached_def)

text \<open>
  After the removal of the indicator the \<^verbatim>\<open>catch\<close> callback removes nothing, and
  what it adds to the chat is a new element.
\<close>

lemma onError_effects:
  "\<exists>rest. effects (after (onError r e s)) =
       effects (removeTypingIndicator (req_typingIndicator r) s) @ rest \<and>
     (\<forall>j. RemoveChild j \<notin> set rest)"
  by (simp add: onError_def after_def Let_def addMessage_def appendChild_def split: sum.splits)

lemma attached_effects: "attached i (s\<lparr>effects := es\<rparr>) = attached i s"
  by (simp add: attached_def)

lemma onError_attached:
  "attached i (after (onError r e s)) \<Longrightarrow>
   attached i (removeTypingIndicator (req_typingIndicator r) s) \<or> i = next_node s"
  by (auto simp: onError_def after_def Let_def attached_addMessage attached_effects
      next_node_removeTypingIndicator split: sum.splits)

lemma onData_effects:
  "\<exists>rest. effects (after (onData r d s)) =
       effects (removeTypingIndicator (req_typingIndicator r) s) @ rest \<and>
     (\<forall>j. RemoveChild j \<notin> set rest)"
  by (simp add: onData_def after_def Let_def addMessage_def appendChild_def split: sum.splits)

lemma onData_attached:
  "attached i (after (onData r d s)) \<Longrightarrow>
   attached i (removeTypingIndicator (req_typingIndicator r) s) \<or> i = next_node s"
  by (auto simp: onData_def after_def Let_def attached_addMessage
      next_node_removeTypingIndicator split: sum.splits)

lemma onData_throws:
  "onData r d s = Inl (e, s') \<Longrightarrow> s' = removeTypingIndicator (req_typingIndicator r) s"
  by (auto simp: onData_def Let_def split: sum.splits)

lemma effects_onFinally: "effects (onFinally r s) = effects s"
  by (simp add: onFinally_def unlock_def clearTimeout_def)

lemma attached_onFinally: "attached i (onFinally r s) = attached i s"
  by (simp add: onFinally_def unlock_def clearTimeout_def attached_def)

lemma settle_rejected_effects:
  "\<exists>rest. effects (settle r (Inl e) s) =
       effects (removeTypingIndicator (req_typingIndicator r) s) @ rest \<and>
     (\<forall>j. RemoveChild j \<notin> set rest)"
proof -
  from onError_effects [of r e s] obtain rest where
    rest: "effects (after (onError r e s)) =
        effects (removeTypingIndicator (req_typingIndicator r) s) @ rest"
      "\<forall>j. RemoveChild j \<notin> set rest"
    by blast
  from settle_steps(1) [of r e s] show ?thesis
  proof
    assume "settle r (Inl e) s = onFinally r (after (onError r e s))"
    then show ?thesis using rest by (simp add: effects_onFinally)
  next
    assume "\<exists>e'. settle r (Inl e) s =
      (onFinally r (after (onError r e s)))
        \<lparr>effects := effects (onFinally r (after (onError r e s))) @ [UnhandledRejection e']\<rparr>"
    then obtain e' where "effects (settle r (Inl e) s) =
        effects (removeTypingIndicator (req_typingIndicator r) s) @ (rest @ [UnhandledRejection e'])"
      using rest(1) by (auto simp: effects_onFinally)
    moreover have "\<forall>j. RemoveChild j \<notin> set (rest @ [UnhandledRejection e'])"
      using rest(2) by simp
    ultimately show ?thesis by blast
  qed
qed

text \<open>
  Whatever settles the call, the first thing that happens to the chat is the
  removal of the indicator, if it is there, and nothing is removed after that.
\<close>

lemma settle_effects:
  "\<exists>rest. effects (settle r x s) =
       effects s @ (if attached (req_typingIndicator r) s then [RemoveChild (req_typingIndicator r)]
                    else []) @ rest \<and>
     (\<forall>j. RemoveChild j \<notin> set rest)"
proof (cases x)
  case (Inl e)
  then show ?thesis
    using settle_rejected_effects [of r e s] by (simp add: effects_removeTypingIndicator)
next
  case (Inr d)
  let ?s1 = "removeTypingIndicator (req_typingIndicator r) s"
  show ?thesis
  proof (cases "onData r d s")
    case (Inl a)
    then obtain e where a: "onData r d s = Inl (e, ?s1)"
      using onData_throws [of r d s] by (cases a) auto
    then have "settle r (Inr d) s = settle r (Inl e) ?s1"
      by (simp add: settle_def)
    moreover have "removeTypingIndicator (req_typingIndicator r) ?s1 = ?s1"
      using detached_removeTypingIndicator [of "req_typingIndicator r" s]
      by (simp add: removeTypingIndicator_def)
    ultimately show ?thesis
      using settle_rejected_effects [of r e ?s1] Inr
      by (simp add: effects_removeTypingIndicator)
  next
    case (Inr s')
    then have "settle r (Inr d) s = onFinally r (after (onData r d s))"
      by (simp add: settle_def after_def)
    then show ?thesis
      using onData_effects [of r d s] \<open>x = Inr d\<close>
      by (simp add: effects_onFinally effects_removeTypingIndicator)
  qed
qed

lemma settle_removes_once:
  "attached (req_typingIndicator r) s \<Longrightarrow>
   removals (req_typingIndicator r) (settle r x s) = Suc (removals (req_typingIndicator r) s)"
proof -
  assume a: "attached (req_typingIndicator r) s"
  from settle_effects [of r x s] a obtain rest where
    e: "effects (settle r x s) = effects s @ RemoveChild (req_typingIndicator r) # rest"
    and n: "\<forall>j. RemoveChild j \<notin> set rest"
    by auto
  have "filter (\<lambda>e. e = RemoveChild (req_typingIndicator r)) rest = []"
    using n by (auto simp: filter_empty_conv)
  then show ?thesis
    by (simp add: removals_def e)
qed

text \<open>
  After the call has settled, its indicator, an element created before, is not in
  the chat.
\<close>

lemma settle_rejected_detaches:
  assumes "req_typingIndicator r < next_node s"
  shows "\<not> attached (req_typingIndicator r) (settle r (Inl e) s)"
proof -
  have "\<not> attached (req_typingIndicator r) (after (onError r e s))"
    using onError_attached [of "req_typingIndicator r" r e s] assms
      detached_removeTypingIndicator [of "req_typingIndicator r" s]
    by auto
  then show ?thesis
    using settle_steps(1) [of r e s] by (auto simp: attached_onFinally attached_effects)
qed

lemma settle_detaches:
  assumes "req_typingIndicator r < next_node s"
  shows "\<not> attached (req_typingIndicator r) (settle r x s)"
proof (cases x)
  case (Inl e)
  then show ?thesis using settle_rejected_detaches [OF assms] by simp
next
  case (Inr d)
  let ?s1 = "removeTypingIndicator (req_typingIndicator r) s"
  show ?thesis
  proof (cases "onData r d s")
    case (Inl a)
    then obtain e where "onData r d s = Inl (e, ?s1)"
      using onData_throws [of r d s] by (cases a) auto
    then have "settle r (Inr d) s = settle r (Inl e) ?s1"
      by (simp add: settle_def)
    moreover have "req_typingIndicator r < next_node ?s1"
      using assms by (simp add: next_node_removeTypingIndicator)
    ultimately show ?thesis
      using settle_rejected_detaches [of r ?s1 e] \<open>x = Inr d\<close> by simp
  next
    case (Inr s')
    then have "settle r (Inr d) s = onFinally r (after (onData r d s))"
      by (simp add: settle_def after_def)
    moreover have "\<not> attached (req_typingIndicator r) (after (onData r d s))"
      using onData_attached [of "req_typingIndicator r" r d s] assms
        detached_removeTypingIndicator [of "req_typingIndicator r" s]
      by auto
    ultimately show ?thesis
      using \<open>x = Inr d\<close> by (simp add: attached_onFinally)
  qed
qed

section \<open>The timer after the response has arrived\<close>

text \<open>
  When the timer fires while \<^verbatim>\<open>response.json()\<close> is still pending, the rejection
  of \<^verbatim>\<open>response.json()\<close> is caught by the \<^verbatim>\<open>try\<close> of the first callback and
  replaced by \<^verbatim>\<open>Error('Invalid JSON from API (...)')\<close>: the message rendered is
  the one for failures in general.
\<close>

lemma timerFires_while_reading:
  assumes "find (\<lambda>e. fst e = t) (timers s) = Some (t, ms, AbortFetch)"
    and "find (\<lambda>x. req_timeoutId x = t) (fetching s) = None"
    and "find (\<lambda>e. req_timeoutId (fst e) = t) (reading s) = Some (r, status)"
    and "truthy_string (GEMINI_API_KEY s) \<or> storage s \<noteq> Denied"
  shows "rendered (timerFires t s) = rendered s @ [(ai_message, service_error @ hint s)]"
proof -
  let ?q = "s\<lparr>timers := filter (\<lambda>e. fst e \<noteq> t) (timers s),
              reading := filter (\<lambda>e. fst e \<noteq> r) (reading s)\<rparr>"
  let ?e = "Error (js ''Invalid JSON from API ('' @ digits status @ js '')'')"
  have "timerFires t s = settle r (Inl ?e) ?q"
    using assms(1,2,3) by (simp add: timerFires_def abort_def onResponse_def)
  moreover have "truthy_string (GEMINI_API_KEY ?q) \<or> storage ?q \<noteq> Denied"
    using assms(4) by simp
  moreover have "rendered ?q = rendered s" "hint ?q = hint s"
    by (simp_all add: rendered_def hint_def)
  ultimately show ?thesis
    using settle_rejected [of ?q r ?e] by simp
qed


lemma timers_sent:
  "find (\<lambda>e. fst e = 0)
     (timers (responseArrives (hello_call (js ''k1'')) status (sent (js ''k1'')))) =
   Some (0, 15000, AbortFetch)"
  "find (\<lambda>x. req_timeoutId x = 0)
     (fetching (responseArrives (hello_call (js ''k1'')) status (sent (js ''k1'')))) = None"
  "find (\<lambda>e. req_timeoutId (fst e) = 0)
     (reading (responseArrives (hello_call (js ''k1'')) status (sent (js ''k1'')))) =
   Some (hello_call (js ''k1''), status)"
  "reading (responseArrives (hello_call (js ''k1'')) status (sent (js ''k1''))) =
   [(hello_call (js ''k1''), status)]"
  by (simp_all add: sent_def sendMessage_def after_def responseArrives_def page_defs dom_defs
      key_defs string_defs Let_def)

lemma reachable_reading:
  "reachable (responseArrives (hello_call (js ''k1'')) status (sent (js ''k1'')))"
  by (intro reachable.response reachable_sent)

text \<open>
  C5 fails on the code. \<^verbatim>\<open>Hello\<close> is sent with a key saved; the response
  arrives with status 200 and its body is still being read when the timer of
  15000 ms, which is still pending, fires. The timer aborts the call, which is in
  flight no longer, but the message rendered is
  \<^verbatim>\<open>An error occurred while contacting the Gemini service.\<close>, the text for other
  failures, not the text for a timeout: the abort is not told apart.
\<close>

theorem timeout_while_reading_not_distinguished:
  "reading (responseArrives (hello_call (js ''k1'')) 200 (sent (js ''k1''))) =
     [(hello_call (js ''k1''), 200)] \<and>
   find (\<lambda>e. fst e = 0)
     (timers (responseArrives (hello_call (js ''k1'')) 200 (sent (js ''k1'')))) =
     Some (0, 15000, AbortFetch) \<and>
   rendered (timerFires 0 (responseArrives (hello_call (js ''k1'')) 200 (sent (js ''k1'')))) =
     [(user_message, js ''Hello''), (ai_message, service_error)] \<and>
   reading (timerFires 0 (responseArrives (hello_call (js ''k1'')) 200 (sent (js ''k1'')))) = [] \<and>
   service_error \<noteq> timed_out"
proof -
  let ?s = "responseArrives (hello_call (js ''k1'')) 200 (sent (js ''k1''))"
  have k: "truthy_string (GEMINI_API_KEY ?s) \<or> storage ?s \<noteq> Denied"
    by (simp add: key_sent)
  have h: "hint ?s = []"
    by (simp add: hint_def key_sent)
  have r: "rendered (timerFires 0 ?s) = [(user_message, js ''Hello''), (ai_message, service_error)]"
    using timerFires_while_reading [OF timers_sent(1) timers_sent(2) timers_sent(3) k]
    by (simp add: rendered_sent h)
  have t: "req_timeoutId (hello_call (js ''k1'')) = 0"
    by (simp add: hello_call_def)
  have e: "reading (timerFires 0 ?s) = []"
    by (simp add: timerFires_def abort_def timers_sent settle_frame t)
  have d: "service_error \<noteq> timed_out"
    by (simp add: service_error_def timed_out_def js_def)
  show ?thesis
    using r e d timers_sent(1) [of 200] timers_sent(4) [of 200] by simp
qed

end
